theory Spec2Isabelle
  imports Main "HOL-Library.Sublist"
begin

section \<open>JavaScript values and strings\<close>

text \<open>
  Item data is typed \<^verbatim>\<open>Record<string, any>\<close>. The values the code tests and prints
  are the primitives: \<^verbatim>\<open>undefined\<close> (what reading an absent key gives), \<^verbatim>\<open>null\<close>,
  booleans, numbers and strings. Numbers are modelled as integers (fractions, NaN and
  the infinities are left out); strings are lists of 8-bit characters.
\<close>

datatype jsval = Undefined | Null | VBool bool | VNum int | VStr string

text \<open>Truthiness, as \<^verbatim>\<open>!v\<close>, \<^verbatim>\<open>v || d\<close> and \<^verbatim>\<open>v && e\<close> test it.\<close>

fun truthy :: "jsval \<Rightarrow> bool" where
  "truthy Undefined = False"
| "truthy Null = False"
| "truthy (VBool b) = b"
| "truthy (VNum n) = (n \<noteq> 0)"
| "truthy (VStr s) = (s \<noteq> [])"

text \<open>\<^verbatim>\<open>a || b\<close>\<close>

definition jsOr :: "jsval \<Rightarrow> jsval \<Rightarrow> jsval" where
  "jsOr a b = (if truthy a then a else b)"

definition digitChar :: "nat \<Rightarrow> char" where
  "digitChar d = ''0123456789'' ! d"

function natToString :: "nat \<Rightarrow> string" where
  "natToString n = (if n < 10 then [digitChar n] else natToString (n div 10) @ [digitChar (n mod 10)])"
  by pat_completeness auto
termination
  by (relation "measure id") auto

declare natToString.simps [simp del]

definition intToString :: "int \<Rightarrow> string" where
  "intToString i = (if i < 0 then CHR ''-'' # natToString (nat (- i)) else natToString (nat i))"

text \<open>\<^verbatim>\<open>String(v)\<close>\<close>

fun String :: "jsval \<Rightarrow> string" where
  "String Undefined = ''undefined''"
| "String Null = ''null''"
| "String (VBool b) = (if b then ''true'' else ''false'')"
| "String (VNum n) = intToString n"
| "String (VStr s) = s"

text \<open>
  \<^verbatim>\<open>s.toLowerCase()\<close> on the ASCII range: the letters A to Z are mapped to a to z, every
  other character is kept.
\<close>

definition toLowerChar :: "char \<Rightarrow> char" where
  "toLowerChar c =
     (case map_of (zip ''ABCDEFGHIJKLMNOPQRSTUVWXYZ'' ''abcdefghijklmnopqrstuvwxyz'') c of
        None \<Rightarrow> c
      | Some l \<Rightarrow> l)"

definition toLowerCase :: "string \<Rightarrow> string" where
  "toLowerCase s = map toLowerChar s"

text \<open>\<^verbatim>\<open>s.includes(q)\<close>: \<open>q\<close> occurs in \<open>s\<close> as a contiguous run.\<close>

fun includes_str :: "string \<Rightarrow> string \<Rightarrow> bool" where
  "includes_str [] q = (q = [])"
| "includes_str (c # s) q = (prefix q (c # s) \<or> includes_str s q)"

section \<open>Data model (src/types/ItemType.ts, src/types/Project.ts)\<close>

datatype fieldType = Text | Number | Date | Select

record FieldDefinition =
  field_id :: string
  field_name :: string
  field_type :: fieldType
  field_required :: bool
  field_options :: "string list option"

record ItemType =
  type_id :: string
  type_name :: string
  type_fields :: "FieldDefinition list"
  type_createdAt :: string

text \<open>
  An object keyed by field id (\<^verbatim>\<open>item.data\<close>, \<^verbatim>\<open>formData\<close>, \<^verbatim>\<open>errors\<close>) is an
  association list in insertion order. Field ids are generated by \<^verbatim>\<open>addField\<close> as
  \<^verbatim>\<open>field_<milliseconds>\<close>, so such a key is never an array index nor a name
  inherited from \<^verbatim>\<open>Object.prototype\<close>, and reading an absent key gives
  \<^verbatim>\<open>undefined\<close>.
\<close>

type_synonym 'v jsobject = "(string \<times> 'v) list"

record ItemInstance =
  item_id :: string
  item_typeId :: string
  item_typeName :: string
  item_data :: "jsval jsobject"
  item_createdAt :: string

record Project =
  project_id :: string
  project_name :: string
  project_description :: string
  project_location :: string
  project_itemIds :: "string list"
  project_createdAt :: string
  project_updatedAt :: string

text \<open>\<^verbatim>\<open>obj[k]\<close> for an object of values\<close>

definition getProp :: "jsval jsobject \<Rightarrow> string \<Rightarrow> jsval" where
  "getProp obj k = (case map_of obj k of None \<Rightarrow> Undefined | Some v \<Rightarrow> v)"

text \<open>\<^verbatim>\<open>obj[k] = v\<close>: an existing key keeps its place, a new key is added last.\<close>

fun setProp :: "'v jsobject \<Rightarrow> string \<Rightarrow> 'v \<Rightarrow> 'v jsobject" where
  "setProp [] k v = [(k, v)]"
| "setProp ((k', v') # obj) k v = (if k' = k then (k, v) # obj else (k', v') # setProp obj k v)"

text \<open>\<^verbatim>\<open>Object.values(obj)\<close>\<close>

definition objectValues :: "'v jsobject \<Rightarrow> 'v list" where
  "objectValues obj = map snd obj"

section \<open>Search (ItemList \<^verbatim>\<open>filteredItems\<close>, ProjectView \<^verbatim>\<open>filteredProjectItems\<close>)\<close>

text \<open>The callback given to \<^verbatim>\<open>items.filter\<close> in ItemList.\<close>

definition itemMatches :: "string \<Rightarrow> ItemInstance \<Rightarrow> bool" where
  "itemMatches searchTerm item =
     (let searchString = toLowerCase searchTerm in
      if includes_str (toLowerCase (item_typeName item)) searchString then True
      else list_ex (\<lambda>value. includes_str (toLowerCase (String value)) searchString)
             (objectValues (item_data item)))"

definition filteredItems :: "ItemInstance list \<Rightarrow> string \<Rightarrow> ItemInstance list" where
  "filteredItems items searchTerm =
     (if searchTerm = [] then items else filter (itemMatches searchTerm) items)"

text \<open>ProjectView: the project's items, then the same test written out a second time.\<close>

definition projectItems :: "Project \<Rightarrow> ItemInstance list \<Rightarrow> ItemInstance list" where
  "projectItems project allItems =
     filter (\<lambda>item. item_id item \<in> set (project_itemIds project)) allItems"

definition availableItems :: "Project \<Rightarrow> ItemInstance list \<Rightarrow> ItemInstance list" where
  "availableItems project allItems =
     filter (\<lambda>item. item_id item \<notin> set (project_itemIds project)) allItems"

definition projectItemMatches :: "string \<Rightarrow> ItemInstance \<Rightarrow> bool" where
  "projectItemMatches searchTerm item =
     (let searchString = toLowerCase searchTerm in
      if includes_str (toLowerCase (item_typeName item)) searchString then True
      else list_ex (\<lambda>value. includes_str (toLowerCase (String value)) searchString)
             (objectValues (item_data item)))"

definition filteredProjectItems :: "Project \<Rightarrow> ItemInstance list \<Rightarrow> string \<Rightarrow> ItemInstance list" where
  "filteredProjectItems project allItems searchTerm =
     (if searchTerm = [] then projectItems project allItems
      else filter (projectItemMatches searchTerm) (projectItems project allItems))"

section \<open>Item creation (ItemCreator \<^verbatim>\<open>validateForm\<close>, \<^verbatim>\<open>handleSave\<close>)\<close>

text \<open>
  The test made for each field:
  \<^verbatim>\<open>field.required && (!formData[field.id] || formData[field.id] === '')\<close>
\<close>

definition violates :: "jsval jsobject \<Rightarrow> FieldDefinition \<Rightarrow> bool" where
  "violates formData field =
     (field_required field \<and>
      (\<not> truthy (getProp formData (field_id field)) \<or> getProp formData (field_id field) = VStr []))"

text \<open>The callback of \<^verbatim>\<open>itemType.fields.forEach\<close>, on the error object built so far.\<close>

definition noteViolation :: "jsval jsobject \<Rightarrow> string jsobject \<Rightarrow> FieldDefinition \<Rightarrow> string jsobject" where
  "noteViolation formData errs field =
     (if violates formData field
      then setProp errs (field_id field) (field_name field @ '' is required'')
      else errs)"

text \<open>
  \<^verbatim>\<open>validateForm\<close> returns the error object it stores with \<^verbatim>\<open>setErrors\<close> and its
  boolean result, \<^verbatim>\<open>Object.keys(newErrors).length === 0\<close>.
\<close>

definition validateForm :: "ItemType \<Rightarrow> jsval jsobject \<Rightarrow> string jsobject \<times> bool" where
  "validateForm itemType formData =
     (let newErrors = foldl (noteViolation formData) [] (type_fields itemType)
      in (newErrors, length newErrors = 0))"

text \<open>
  \<^verbatim>\<open>handleSave\<close>: \<open>Inl\<close> carries the error object when validation fails and nothing is
  saved, \<open>Inr\<close> the item handed to \<^verbatim>\<open>onSave\<close>. \<open>nowMs\<close> is \<^verbatim>\<open>Date.now()\<close> and
  \<open>nowIso\<close> is \<^verbatim>\<open>new Date().toISOString()\<close>.
\<close>

definition handleSave :: "nat \<Rightarrow> string \<Rightarrow> ItemType \<Rightarrow> jsval jsobject \<Rightarrow> string jsobject + ItemInstance" where
  "handleSave nowMs nowIso itemType formData =
     (case validateForm itemType formData of
        (newErrors, ok) \<Rightarrow>
          if \<not> ok then Inl newErrors
          else Inr \<lparr>item_id = ''item_'' @ natToString nowMs,
                    item_typeId = type_id itemType,
                    item_typeName = type_name itemType,
                    item_data = formData,
                    item_createdAt = nowIso\<rparr>)"

subsection \<open>The validation rule in the specification's words\<close>

definition isDigit :: "char \<Rightarrow> bool" where
  "isDigit c = (48 \<le> (of_char c :: nat) \<and> (of_char c :: nat) \<le> 57)"

definition isSpace :: "char \<Rightarrow> bool" where
  "isSpace c = ((of_char c :: nat) \<in> {9, 10, 11, 12, 13, 32})"

text \<open>\<^verbatim>\<open>s.trim()\<close>, over the ASCII white space.\<close>

definition trim :: "string \<Rightarrow> string" where
  "trim s = rev (dropWhile isSpace (rev (dropWhile isSpace s)))"

text \<open>
  An unsigned decimal literal: digits, with an optional fraction, or a fraction alone.
\<close>

definition decimalLiteral :: "string \<Rightarrow> bool" where
  "decimalLiteral s =
     (let whole = takeWhile isDigit s; rest = dropWhile isDigit s in
      case rest of
        [] \<Rightarrow> whole \<noteq> []
      | c # frac \<Rightarrow> c = CHR ''.'' \<and> list_all isDigit frac \<and> (whole \<noteq> [] \<or> frac \<noteq> []))"

text \<open>
  The specification's "coercible" for a value of a number field: \<^verbatim>\<open>Number(v)\<close> is a
  number. For a string this is read as: the trimmed text is empty or a signed decimal
  literal (exponents, hexadecimal literals and \<^verbatim>\<open>Infinity\<close> are left out).
\<close>

definition spec_coercible :: "jsval \<Rightarrow> bool" where
  "spec_coercible v =
     (case v of
        Undefined \<Rightarrow> False
      | VStr s \<Rightarrow>
          (let t = trim s in
           t = [] \<or> decimalLiteral (if hd t = CHR ''-'' \<or> hd t = CHR ''+'' then tl t else t))
      | _ \<Rightarrow> True)"

text \<open>
  The specification: a field is in violation when it is required and its value is
  missing, the empty string, or (for a number field) not coercible.
\<close>

definition spec_violation :: "jsval jsobject \<Rightarrow> FieldDefinition \<Rightarrow> bool" where
  "spec_violation formData field =
     (field_required field \<and>
      (getProp formData (field_id field) = Undefined \<or>
       getProp formData (field_id field) = VStr [] \<or>
       (field_type field = Number \<and> \<not> spec_coercible (getProp formData (field_id field)))))"

section \<open>Item type creation (ItemTypeCreator \<^verbatim>\<open>addField\<close>, \<^verbatim>\<open>removeField\<close>)\<close>

text \<open>\<^verbatim>\<open>s.split(sep)\<close> for a one-character separator.\<close>

fun split :: "char \<Rightarrow> string \<Rightarrow> string list" where
  "split sep [] = [[]]"
| "split sep (c # s) =
     (if c = sep then [] # split sep s
      else (case split sep s of [] \<Rightarrow> [[c]] | w # ws \<Rightarrow> (c # w) # ws))"

text \<open>
  The draft is a \<^verbatim>\<open>Partial<FieldDefinition>\<close>: each property may be undefined. Its
  \<^verbatim>\<open>options\<close> property is never read by \<^verbatim>\<open>addField\<close>.
\<close>

record FieldDraft =
  draft_name :: "string option"
  draft_type :: "fieldType option"
  draft_required :: "bool option"

record CreatorState =
  cs_typeName :: string
  cs_fields :: "FieldDefinition list"
  cs_currentField :: FieldDraft
  cs_selectOptions :: string

definition emptyDraft :: FieldDraft where
  "emptyDraft = \<lparr>draft_name = Some [], draft_type = Some Text, draft_required = Some False\<rparr>"

text \<open>
  \<^verbatim>\<open>
  options: currentField.type === 'select' && selectOptions
    ? selectOptions.split(',').map(opt => opt.trim()).filter(Boolean)
    : undefined
  \<close>
\<close>

definition newFieldOptions :: "fieldType option \<Rightarrow> string \<Rightarrow> string list option" where
  "newFieldOptions ty selectOptions =
     (if ty = Some Select \<and> selectOptions \<noteq> []
      then Some (filter (\<lambda>opt. opt \<noteq> []) (map trim (split CHR '','' selectOptions)))
      else None)"

definition addField :: "nat \<Rightarrow> CreatorState \<Rightarrow> CreatorState" where
  "addField nowMs st =
     (case draft_name (cs_currentField st) of
        None \<Rightarrow> st
      | Some nm \<Rightarrow>
          if nm = [] then st
          else
            let newField =
                  \<lparr>field_id = ''field_'' @ natToString nowMs,
                   field_name = nm,
                   field_type = (case draft_type (cs_currentField st) of None \<Rightarrow> Text | Some ty \<Rightarrow> ty),
                   field_required = (case draft_required (cs_currentField st) of None \<Rightarrow> False | Some r \<Rightarrow> r),
                   field_options = newFieldOptions (draft_type (cs_currentField st)) (cs_selectOptions st)\<rparr>
            in st\<lparr>cs_fields := cs_fields st @ [newField],
                   cs_currentField := emptyDraft,
                   cs_selectOptions := []\<rparr>)"

definition removeField :: "string \<Rightarrow> CreatorState \<Rightarrow> CreatorState" where
  "removeField fid st = st\<lparr>cs_fields := filter (\<lambda>field. field_id field \<noteq> fid) (cs_fields st)\<rparr>"

text \<open>The events that change the field list of the form.\<close>

datatype creatorEvent = AddField nat | RemoveField string | SetDraft FieldDraft | SetSelectOptions string

fun creatorStep :: "CreatorState \<Rightarrow> creatorEvent \<Rightarrow> CreatorState" where
  "creatorStep st (AddField nowMs) = addField nowMs st"
| "creatorStep st (RemoveField fid) = removeField fid st"
| "creatorStep st (SetDraft d) = st\<lparr>cs_currentField := d\<rparr>"
| "creatorStep st (SetSelectOptions s) = st\<lparr>cs_selectOptions := s\<rparr>"

definition initialCreatorState :: CreatorState where
  "initialCreatorState =
     \<lparr>cs_typeName = [], cs_fields = [], cs_currentField = emptyDraft, cs_selectOptions = []\<rparr>"

text \<open>The invariant of the specification: options present and non-empty iff the kind is select.\<close>

definition spec_optionsInvariant :: "FieldDefinition \<Rightarrow> bool" where
  "spec_optionsInvariant field =
     ((case field_options field of None \<Rightarrow> False | Some opts \<Rightarrow> opts \<noteq> [])
        \<longleftrightarrow> field_type field = Select)"

section \<open>Projects (ProjectView \<^verbatim>\<open>addItemsToProject\<close>, Index \<^verbatim>\<open>handleDeleteItems\<close>)\<close>

text \<open>\<open>now\<close> is \<^verbatim>\<open>new Date().toISOString()\<close>.\<close>

definition addItemsToProject :: "string \<Rightarrow> Project \<Rightarrow> string list \<Rightarrow> Project" where
  "addItemsToProject now project itemIds =
     project\<lparr>project_itemIds := project_itemIds project @ itemIds, project_updatedAt := now\<rparr>"

text \<open>
  The add dialog keeps a \<^verbatim>\<open>Set\<close> of selected ids (here its elements in insertion
  order), toggled by clicking one of the available items it lists, and hands
  \<^verbatim>\<open>Array.from(selectedItems)\<close> to \<^verbatim>\<open>addItemsToProject\<close>.
\<close>

definition toggleItemSelection :: "string list \<Rightarrow> string \<Rightarrow> string list" where
  "toggleItemSelection selectedItems itemId =
     (if itemId \<in> set selectedItems then removeAll itemId selectedItems
      else selectedItems @ [itemId])"

definition handleAddItems :: "string \<Rightarrow> Project \<Rightarrow> string list \<Rightarrow> Project" where
  "handleAddItems now project clicks =
     addItemsToProject now project (foldl toggleItemSelection [] clicks)"

text \<open>
  \<^verbatim>\<open>handleDeleteItems\<close>: the new item and project collections. The callback of
  \<^verbatim>\<open>projects.map\<close> reads the clock once per project; \<open>clock k\<close> is the reading for
  the project at position \<open>k\<close>.
\<close>

definition handleDeleteItems ::
  "(nat \<Rightarrow> string) \<Rightarrow> string list \<Rightarrow> ItemInstance list \<Rightarrow> Project list \<Rightarrow> ItemInstance list \<times> Project list" where
  "handleDeleteItems clock itemIds items projects =
     (filter (\<lambda>item. item_id item \<notin> set itemIds) items,
      map (\<lambda>(k, project).
             project\<lparr>project_itemIds := filter (\<lambda>i. i \<notin> set itemIds) (project_itemIds project),
                     project_updatedAt := clock k\<rparr>)
        (enumerate 0 projects))"

section \<open>Export (ItemList \<^verbatim>\<open>exportToExcel\<close>, ProjectView \<^verbatim>\<open>exportProject\<close>)\<close>

subsection \<open>The grouping object\<close>

text \<open>
  \<^verbatim>\<open>groupedByType\<close> is a plain object \<^verbatim>\<open>{}\<close> keyed by \<^verbatim>\<open>item.typeName\<close>, which is
  free text typed by the user. Two rules of JavaScript objects therefore matter.
  Reading a key that is not an own property finds the members of
  \<^verbatim>\<open>Object.prototype\<close>; and \<^verbatim>\<open>Object.entries\<close> lists the keys that are array
  indices first, in ascending numeric order, then the other keys in insertion order.
\<close>

definition objectPrototypeKeys :: "string list" where
  "objectPrototypeKeys =
     [''constructor'', ''__defineGetter__'', ''__defineSetter__'', ''hasOwnProperty'',
      ''__lookupGetter__'', ''__lookupSetter__'', ''isPrototypeOf'', ''propertyIsEnumerable'',
      ''toString'', ''valueOf'', ''__proto__'', ''toLocaleString'']"

definition digitsValue :: "string \<Rightarrow> nat" where
  "digitsValue s = foldl (\<lambda>n c. 10 * n + ((of_char c :: nat) - 48)) 0 s"

text \<open>
  An array index is the canonical decimal text of an integer from 0 to \<open>2^32 - 2\<close>:
  no sign, no leading zero.
\<close>

definition arrayIndex :: "string \<Rightarrow> nat option" where
  "arrayIndex s =
     (if s \<noteq> [] \<and> list_all isDigit s \<and> (s = ''0'' \<or> hd s \<noteq> CHR ''0'') \<and> digitsValue s < 4294967295
      then Some (digitsValue s) else None)"

definition isArrayIndex :: "string \<Rightarrow> bool" where
  "isArrayIndex s = (arrayIndex s \<noteq> None)"

text \<open>\<^verbatim>\<open>Object.entries(obj)\<close>\<close>

definition objectEntries :: "'v jsobject \<Rightarrow> (string \<times> 'v) list" where
  "objectEntries obj =
     sort_key (\<lambda>(k, v). the (arrayIndex k)) (filter (\<lambda>(k, v). isArrayIndex k) obj)
     @ filter (\<lambda>(k, v). \<not> isArrayIndex k) obj"

text \<open>
  What an export can throw: the \<^verbatim>\<open>TypeError\<close> of the grouping, and the errors of the
  XLSX library calls.
\<close>

datatype error =
  TypeError | TooManyWorksheets | BadSheetName | DuplicateSheetName | WorkbookEmpty | WriteRejected

text \<open>
  One step of the \<^verbatim>\<open>reduce\<close>:
  \<^verbatim>\<open>
  if (!acc[item.typeName]) { acc[item.typeName] = []; }
  acc[item.typeName].push(item);
  \<close>
  For an own key the array is there and the item is pushed. For a key that is not own
  but names a member of \<^verbatim>\<open>Object.prototype\<close>, the read gives that member, which is
  truthy and has no \<^verbatim>\<open>push\<close>: the call throws a \<^verbatim>\<open>TypeError\<close>. Otherwise the read
  gives \<^verbatim>\<open>undefined\<close> and a new array is stored first.
\<close>

definition groupStep :: "ItemInstance list jsobject \<Rightarrow> ItemInstance \<Rightarrow> error + ItemInstance list jsobject" where
  "groupStep acc item =
     (case map_of acc (item_typeName item) of
        Some typeItems \<Rightarrow> Inr (setProp acc (item_typeName item) (typeItems @ [item]))
      | None \<Rightarrow>
          if item_typeName item \<in> set objectPrototypeKeys then Inl TypeError
          else Inr (setProp acc (item_typeName item) [item]))"

fun reduceGroups :: "ItemInstance list jsobject \<Rightarrow> ItemInstance list \<Rightarrow> error + ItemInstance list jsobject" where
  "reduceGroups acc [] = Inr acc"
| "reduceGroups acc (item # items) =
     (case groupStep acc item of Inl e \<Rightarrow> Inl e | Inr acc' \<Rightarrow> reduceGroups acc' items)"

definition groupedByType :: "ItemInstance list \<Rightarrow> error + ItemInstance list jsobject" where
  "groupedByType items = reduceGroups [] items"

subsection \<open>Sheets\<close>

text \<open>
  A worksheet is the array of arrays given to \<^verbatim>\<open>aoa_to_sheet\<close>, with the column
  widths stored under \<^verbatim>\<open>!cols\<close> when the code sets them. A document is what is handed
  to \<^verbatim>\<open>XLSX.writeFile\<close>: the sheets appended to the workbook, in order, and the file
  name.
\<close>

record Sheet =
  sheet_name :: string
  sheet_data :: "jsval list list"
  sheet_cols :: "nat list option"

record Document =
  doc_fileName :: string
  doc_sheets :: "Sheet list"

text \<open>
  \<open>localeDate v\<close> stands for \<^verbatim>\<open>new Date(v).toLocaleDateString()\<close>, which depends on
  the locale and time zone of the host.
\<close>

definition headersOf :: "ItemType \<Rightarrow> string list" where
  "headersOf itemType = ''ID'' # ''Created At'' # map field_name (type_fields itemType)"

text \<open>
  \<^verbatim>\<open>
  [item.id, new Date(item.createdAt).toLocaleDateString(),
   ...itemType.fields.map(field => item.data[field.id] || '')]
  \<close>
\<close>

definition dataRow :: "(jsval \<Rightarrow> string) \<Rightarrow> ItemType \<Rightarrow> ItemInstance \<Rightarrow> jsval list" where
  "dataRow localeDate itemType item =
     VStr (item_id item) # VStr (localeDate (VStr (item_createdAt item)))
     # map (\<lambda>field. jsOr (getProp (item_data item) (field_id field)) (VStr [])) (type_fields itemType)"

text \<open>
  \<^verbatim>\<open>
  headers.map((header, i) => {
    const maxLength = Math.max(header.length, ...rows.map(row => String(row[i] || '').length));
    return { wch: Math.min(maxLength + 2, 50) };
  })
  \<close>
  Every row has as many cells as there are headers, so \<^verbatim>\<open>row[i]\<close> is in range.
\<close>

definition colWidths :: "string list \<Rightarrow> jsval list list \<Rightarrow> nat list" where
  "colWidths headers rows =
     map (\<lambda>(i, header).
            min (foldl max (length header)
                   (map (\<lambda>row. length (String (jsOr (row ! i) (VStr [])))) rows) + 2) 50)
       (enumerate 0 headers)"

text \<open>
  The callback of \<^verbatim>\<open>Object.entries(groupedByType).forEach\<close>, whose text is the same in
  both exports: \<open>None\<close> when it returns early, else the sheet it appends.
\<close>

definition typeSheet :: "(jsval \<Rightarrow> string) \<Rightarrow> ItemType list \<Rightarrow> string \<times> ItemInstance list \<Rightarrow> Sheet option" where
  "typeSheet localeDate itemTypes entry =
     (case entry of (typeName, typeItems) \<Rightarrow>
        (case find (\<lambda>ty. type_name ty = typeName) itemTypes of
           None \<Rightarrow> None
         | Some itemType \<Rightarrow>
             let headers = headersOf itemType;
                 rows = map (dataRow localeDate itemType) typeItems
             in Some \<lparr>sheet_name = take 31 typeName,
                      sheet_data = map VStr headers # rows,
                      sheet_cols = Some (colWidths headers rows)\<rparr>))"

subsection \<open>The XLSX library calls\<close>

text \<open>
  The XLSX library is not part of the repository. Its calls are modelled by the checks
  they make before they return. Two checks differ between versions of the library and
  are parameters: \<open>check_ws_name\<close>, the test of a sheet name (every version refuses the
  characters \<^verbatim>\<open>/ ? * [ ]\<close>, the backslash and names of more than 31 characters), and
  \<open>accepts_workbook\<close>, the tests \<^verbatim>\<open>writeFile\<close> makes on the cells of a workbook that
  is not empty.
\<close>

record XlsxLibrary =
  check_ws_name :: "string \<Rightarrow> bool"
  accepts_workbook :: "Sheet list \<Rightarrow> bool"

text \<open>
  \<^verbatim>\<open>book_append_sheet(wb, ws, name)\<close>. An empty name is replaced by the first of
  \<^verbatim>\<open>Sheet1\<close>, \<^verbatim>\<open>Sheet2\<close>, ... up to \<^verbatim>\<open>Sheet65535\<close> that the workbook does not
  use. The call throws when no such name is left or the workbook already has 65535
  sheets, when the name fails the name check, and when the workbook already has a sheet
  of that name. Here the name asked for is the \<open>sheet_name\<close> of the sheet given.
\<close>

definition autoSheetName :: "string list \<Rightarrow> string option" where
  "autoSheetName names =
     map_option (\<lambda>i. ''Sheet'' @ natToString i)
       (find (\<lambda>i. ''Sheet'' @ natToString i \<notin> set names) [1..<65536])"

definition book_append_sheet :: "XlsxLibrary \<Rightarrow> Sheet list \<Rightarrow> Sheet \<Rightarrow> error + Sheet list" where
  "book_append_sheet xlsx workbook sheet =
     (case (if sheet_name sheet = [] then autoSheetName (map sheet_name workbook)
            else Some (sheet_name sheet)) of
        None \<Rightarrow> Inl TooManyWorksheets
      | Some name \<Rightarrow>
          if length workbook \<ge> 65535 then Inl TooManyWorksheets
          else if \<not> check_ws_name xlsx name then Inl BadSheetName
          else if name \<in> set (map sheet_name workbook) then Inl DuplicateSheetName
          else Inr (workbook @ [sheet\<lparr>sheet_name := name\<rparr>]))"

text \<open>
  \<^verbatim>\<open>writeFile(wb, fileName)\<close> throws on a workbook without sheets, and when the
  library refuses the workbook; else the document is written.
\<close>

definition writeFile :: "XlsxLibrary \<Rightarrow> Sheet list \<Rightarrow> string \<Rightarrow> error + Document option" where
  "writeFile xlsx workbook fileName =
     (if workbook = [] then Inl WorkbookEmpty
      else if \<not> accepts_workbook xlsx workbook then Inl WriteRejected
      else Inr (Some \<lparr>doc_fileName = fileName, doc_sheets = workbook\<rparr>))"

subsection \<open>The two exports\<close>

text \<open>
  \<^verbatim>\<open>Object.entries(groupedByType).forEach(...)\<close> on the workbook built so far: a
  group without a registered type is passed over, the sheet of any other group is
  appended, and a throw of \<^verbatim>\<open>book_append_sheet\<close> ends the export.
\<close>

fun appendTypeSheets ::
  "XlsxLibrary \<Rightarrow> (jsval \<Rightarrow> string) \<Rightarrow> ItemType list \<Rightarrow> Sheet list \<Rightarrow> (string \<times> ItemInstance list) list
     \<Rightarrow> error + Sheet list" where
  "appendTypeSheets xlsx localeDate itemTypes workbook [] = Inr workbook"
| "appendTypeSheets xlsx localeDate itemTypes workbook (entry # entries) =
     (case typeSheet localeDate itemTypes entry of
        None \<Rightarrow> appendTypeSheets xlsx localeDate itemTypes workbook entries
      | Some sheet \<Rightarrow>
          (case book_append_sheet xlsx workbook sheet of
             Inl e \<Rightarrow> Inl e
           | Inr workbook' \<Rightarrow> appendTypeSheets xlsx localeDate itemTypes workbook' entries))"

text \<open>
  \<^verbatim>\<open>exportToExcel\<close>: \<open>Inr None\<close> when it returns without a document, \<open>Inl\<close> when
  the grouping or a library call throws. \<open>selectedItems\<close> lists the elements of
  the \<^verbatim>\<open>Set\<close> of selected ids; \<open>today\<close> is
  \<^verbatim>\<open>new Date().toISOString().split('T')[0]\<close>.
\<close>

definition exportToExcel ::
  "XlsxLibrary \<Rightarrow> (jsval \<Rightarrow> string) \<Rightarrow> string \<Rightarrow> ItemInstance list \<Rightarrow> ItemType list \<Rightarrow> string list
     \<Rightarrow> error + Document option" where
  "exportToExcel xlsx localeDate today items itemTypes selectedItems =
     (if length (remdups selectedItems) = 0 then Inr None
      else
        let selectedItemsData = filter (\<lambda>item. item_id item \<in> set selectedItems) items in
        case groupedByType selectedItemsData of
          Inl e \<Rightarrow> Inl e
        | Inr grouped \<Rightarrow>
            (case appendTypeSheets xlsx localeDate itemTypes [] (objectEntries grouped) of
               Inl e \<Rightarrow> Inl e
             | Inr workbook \<Rightarrow> writeFile xlsx workbook (''items_export_'' @ today @ ''.xlsx'')))"

definition isAlnum :: "char \<Rightarrow> bool" where
  "isAlnum c =
     (let n = (of_char c :: nat) in
      (97 \<le> n \<and> n \<le> 122) \<or> (65 \<le> n \<and> n \<le> 90) \<or> (48 \<le> n \<and> n \<le> 57))"

definition projectInfo :: "(jsval \<Rightarrow> string) \<Rightarrow> Project \<Rightarrow> ItemInstance list \<Rightarrow> jsval list list" where
  "projectInfo localeDate project pItems =
     [[VStr ''Project Name'', VStr (project_name project)],
      [VStr ''Description'', VStr (project_description project)],
      [VStr ''Location'', VStr (project_location project)],
      [VStr ''Created At'', VStr (localeDate (VStr (project_createdAt project)))],
      [VStr ''Updated At'', VStr (localeDate (VStr (project_updatedAt project)))],
      [VStr ''Total Items'', VNum (int (length pItems))]]"

definition projectSheet :: "(jsval \<Rightarrow> string) \<Rightarrow> Project \<Rightarrow> ItemInstance list \<Rightarrow> Sheet" where
  "projectSheet localeDate project pItems =
     \<lparr>sheet_name = ''Project Info'',
      sheet_data = projectInfo localeDate project pItems,
      sheet_cols = None\<rparr>"

definition exportProject ::
  "XlsxLibrary \<Rightarrow> (jsval \<Rightarrow> string) \<Rightarrow> string \<Rightarrow> Project \<Rightarrow> ItemInstance list \<Rightarrow> ItemType list
     \<Rightarrow> error + Document option" where
  "exportProject xlsx localeDate today project allItems itemTypes =
     (let pItems = projectItems project allItems in
      if length pItems = 0 then Inr None
      else
        case groupedByType pItems of
          Inl e \<Rightarrow> Inl e
        | Inr grouped \<Rightarrow>
            (case book_append_sheet xlsx [] (projectSheet localeDate project pItems) of
               Inl e \<Rightarrow> Inl e
             | Inr workbook \<Rightarrow>
                 (case appendTypeSheets xlsx localeDate itemTypes workbook (objectEntries grouped) of
                    Inl e \<Rightarrow> Inl e
                  | Inr workbook' \<Rightarrow>
                      writeFile xlsx workbook'
                        (map (\<lambda>c. if isAlnum c then c else CHR ''_'') (project_name project)
                         @ ''_export_'' @ today @ ''.xlsx''))))"

text \<open>
  The display helper of both list views:
  \<^verbatim>\<open>
  if (field.type === 'date' && value) { return new Date(value).toLocaleDateString(); }
  return String(value || '');
  \<close>
\<close>

definition formatFieldValue :: "(jsval \<Rightarrow> string) \<Rightarrow> jsval \<Rightarrow> FieldDefinition \<Rightarrow> string" where
  "formatFieldValue localeDate v field =
     (if field_type field = Date \<and> truthy v then localeDate v else String (jsOr v (VStr [])))"

text \<open>The distinct elements of a list, in the order of their first occurrence.\<close>

primrec firstSeen :: "'a list \<Rightarrow> 'a list" where
  "firstSeen [] = []"
| "firstSeen (x # xs) = x # removeAll x (firstSeen xs)"

text \<open>\<^verbatim>\<open>item.data[field.id]\<close>\<close>

definition fieldValue :: "ItemInstance \<Rightarrow> FieldDefinition \<Rightarrow> jsval" where
  "fieldValue item field = getProp (item_data item) (field_id field)"

text \<open>
  The cell of a type sheet in data row \<open>r\<close> (row 0 of the sheet is the header) and in
  the column of field \<open>j\<close> (columns 0 and 1 are the id and the creation date).
\<close>

definition fieldCell :: "Sheet \<Rightarrow> nat \<Rightarrow> nat \<Rightarrow> jsval" where
  "fieldCell sheet r j = sheet_data sheet ! Suc r ! (j + 2)"

section \<open>The export in the specification's words\<close>

text \<open>
  The specification's grouping: the records partitioned by type name, the groups in the
  order in which each type name is first met, each group in input order.
\<close>

definition spec_groups :: "ItemInstance list \<Rightarrow> (string \<times> ItemInstance list) list" where
  "spec_groups records =
     map (\<lambda>k. (k, filter (\<lambda>r. item_typeName r = k) records))
       (firstSeen (map item_typeName records))"

text \<open>
  The specification's sheets for a set of records: one per distinct type name that names
  a registered type, in first-met order, named by the type name cut to 31 characters,
  with the header row and one row per record of the group.
\<close>

definition spec_typeSheets ::
  "(jsval \<Rightarrow> string) \<Rightarrow> ItemType list \<Rightarrow> ItemInstance list \<Rightarrow> (string \<times> jsval list list) list" where
  "spec_typeSheets localeDate itemTypes records =
     List.map_filter
       (\<lambda>(typeName, group).
          case find (\<lambda>ty. type_name ty = typeName) itemTypes of
            None \<Rightarrow> None
          | Some ty \<Rightarrow>
              Some (take 31 typeName,
                    (VStr ''ID'' # VStr ''Created At'' # map (\<lambda>field. VStr (field_name field)) (type_fields ty))
                    # map (dataRow localeDate ty) group))
       (spec_groups records)"

text \<open>
  The sheet names a workbook can be built from: none is empty, each passes the name check
  of the library, no two are equal and there are at most 65535.
\<close>

definition sheetNamesAccepted :: "XlsxLibrary \<Rightarrow> string list \<Rightarrow> bool" where
  "sheetNamesAccepted xlsx names =
     ((\<forall>n \<in> set names. n \<noteq> [] \<and> check_ws_name xlsx n) \<and> distinct names \<and> length names \<le> 65535)"

section \<open>The search rule in the specification's words\<close>

definition spec_matches :: "string \<Rightarrow> ItemInstance \<Rightarrow> bool" where
  "spec_matches query record =
     (sublist (toLowerCase query) (toLowerCase (item_typeName record)) \<or>
      (\<exists>v \<in> set (objectValues (item_data record)).
         sublist (toLowerCase query) (toLowerCase (String v))))"

section \<open>What the item type form guarantees about options\<close>

definition optionsOnlyOnSelect :: "FieldDefinition \<Rightarrow> bool" where
  "optionsOnlyOnSelect field =
     (case field_options field of
        None \<Rightarrow> True
      | Some opts \<Rightarrow> field_type field = Select \<and> [] \<notin> set opts)"

section \<open>Sample data\<close>

definition nameField :: FieldDefinition where
  "nameField = \<lparr>field_id = ''field_1'', field_name = ''Name'', field_type = Text,
     field_required = True, field_options = None\<rparr>"

definition priceField :: FieldDefinition where
  "priceField = \<lparr>field_id = ''field_2'', field_name = ''Price'', field_type = Number,
     field_required = True, field_options = None\<rparr>"

definition productsType :: ItemType where
  "productsType = \<lparr>type_id = ''type_1'', type_name = ''Products'',
     type_fields = [nameField, priceField], type_createdAt = ''2024-01-01T00:00:00.000Z''\<rparr>"

definition acmeItem :: ItemInstance where
  "acmeItem = \<lparr>item_id = ''item_1'', item_typeId = ''type_1'', item_typeName = ''Customers'',
     item_data = [(''field1'', VStr ''Acme Corp'')], item_createdAt = ''2024-01-02T00:00:00.000Z''\<rparr>"

definition sampleItem :: "string \<Rightarrow> ItemInstance" where
  "sampleItem i = \<lparr>item_id = i, item_typeId = ''type_1'', item_typeName = ''Products'',
     item_data = [], item_createdAt = ''2024-01-02T00:00:00.000Z''\<rparr>"

definition sampleProject :: Project where
  "sampleProject = \<lparr>project_id = ''project_1'', project_name = ''Site A'', project_description = [],
     project_location = ''Lyon'', project_itemIds = [''item_a''],
     project_createdAt = ''2024-01-01T00:00:00.000Z'', project_updatedAt = ''2024-01-01T00:00:00.000Z''\<rparr>"

definition sampleClock :: "nat \<Rightarrow> string" where
  "sampleClock k = ''2024-06-01T00:00:00.000Z''"

definition selectDraft :: FieldDraft where
  "selectDraft = \<lparr>draft_name = Some ''Colour'', draft_type = Some Select, draft_required = Some False\<rparr>"

text \<open>
  A sample library: it refuses the sheet names of more than 31 characters and those
  holding one of \<^verbatim>\<open>: ] [ * ? /\<close> or a backslash, and the workbooks with a text of more than 32767
  characters in a cell.
\<close>

definition sampleXlsx :: XlsxLibrary where
  "sampleXlsx =
     \<lparr>check_ws_name =
        (\<lambda>n. length n \<le> 31
              \<and> (\<forall>c \<in> set n. c \<notin> set [CHR '':'', CHR '']'', CHR ''['', CHR ''*'', CHR ''?'', CHR ''/'', CHR 0x5C])),
      accepts_workbook =
        (\<lambda>workbook. \<forall>sheet \<in> set workbook. \<forall>row \<in> set (sheet_data sheet). \<forall>cell \<in> set row.
              length (String cell) \<le> 32767)\<rparr>"

definition stripZero :: "string \<Rightarrow> string" where
  "stripZero s = (if s \<noteq> [] \<and> hd s = CHR ''0'' then tl s else s)"

text \<open>
  A sample host: the en-US rendering, in UTC, of a date given in ISO form
  (\<^verbatim>\<open>2024-01-15...\<close> gives \<^verbatim>\<open>1/15/2024\<close>).
\<close>

definition sampleLocaleDate :: "jsval \<Rightarrow> string" where
  "sampleLocaleDate v =
     (let s = String v in
      stripZero (take 2 (drop 5 s)) @ ''/'' @ stripZero (take 2 (drop 8 s)) @ ''/'' @ take 4 s)"

definition yearType :: ItemType where
  "yearType = \<lparr>type_id = ''type_2'', type_name = ''2024'',
     type_fields = [nameField], type_createdAt = ''2024-01-01T00:00:00.000Z''\<rparr>"

definition widgetItem :: ItemInstance where
  "widgetItem = \<lparr>item_id = ''item_1'', item_typeId = ''type_1'', item_typeName = ''Products'',
     item_data = [(''field_1'', VStr ''Widget''), (''field_2'', VNum 0)],
     item_createdAt = ''2024-01-02T00:00:00.000Z''\<rparr>"

definition gadgetItem :: ItemInstance where
  "gadgetItem = \<lparr>item_id = ''item_3'', item_typeId = ''type_1'', item_typeName = ''Products'',
     item_data = [(''field_1'', VStr ''Gadget''), (''field_2'', VStr ''12'')],
     item_createdAt = ''2024-01-04T00:00:00.000Z''\<rparr>"

definition yearItem :: ItemInstance where
  "yearItem = \<lparr>item_id = ''item_2'', item_typeId = ''type_2'', item_typeName = ''2024'',
     item_data = [(''field_1'', VStr ''Budget'')],
     item_createdAt = ''2024-01-03T00:00:00.000Z''\<rparr>"

definition dueField :: FieldDefinition where
  "dueField = \<lparr>field_id = ''field_3'', field_name = ''Due'', field_type = Date,
     field_required = False, field_options = None\<rparr>"

definition tasksType :: ItemType where
  "tasksType = \<lparr>type_id = ''type_3'', type_name = ''Tasks'',
     type_fields = [dueField], type_createdAt = ''2024-01-01T00:00:00.000Z''\<rparr>"

definition taskItem :: ItemInstance where
  "taskItem = \<lparr>item_id = ''item_7'', item_typeId = ''type_3'', item_typeName = ''Tasks'',
     item_data = [(''field_3'', VStr ''2024-01-15'')],
     item_createdAt = ''2024-01-02T00:00:00.000Z''\<rparr>"

definition productsTypeLater :: ItemType where
  "productsTypeLater = \<lparr>type_id = ''type_9'', type_name = ''Products'',
     type_fields = [priceField], type_createdAt = ''2024-02-01T00:00:00.000Z''\<rparr>"

definition orphanItem :: ItemInstance where
  "orphanItem = \<lparr>item_id = ''item_4'', item_typeId = ''type_8'', item_typeName = ''Orphans'',
     item_data = [(''field_1'', VStr ''Lost'')],
     item_createdAt = ''2024-01-05T00:00:00.000Z''\<rparr>"

definition productsProject :: Project where
  "productsProject = \<lparr>project_id = ''project_2'', project_name = ''Stock 2024'', project_description = [],
     project_location = ''Lyon'', project_itemIds = [''item_1'', ''item_3'', ''item_4'', ''item_gone''],
     project_createdAt = ''2024-01-01T00:00:00.000Z'', project_updatedAt = ''2024-01-06T00:00:00.000Z''\<rparr>"

section \<open>Facts about strings\<close>

lemma includes_sublist: "includes_str s q \<longleftrightarrow> sublist q s"
  by (induction s) (auto simp: sublist_Cons_right)

lemma includes_Nil [simp]: "includes_str s []"
  by (simp add: includes_sublist)

lemma toLowerCase_simps [simp]:
  "toLowerCase [] = []" "toLowerCase (c # s) = toLowerChar c # toLowerCase s"
  by (simp_all add: toLowerCase_def)

section \<open>Search\<close>

lemma itemMatches_spec: "itemMatches q item = spec_matches q item"
  by (auto simp: itemMatches_def spec_matches_def includes_sublist list_ex_iff Let_def)

lemma projectItemMatches_eq: "projectItemMatches = itemMatches"
  by (rule ext)+ (simp add: projectItemMatches_def itemMatches_def)

lemma spec_matches_empty: "spec_matches [] record"
  by (simp add: spec_matches_def toLowerCase_def)

text \<open>
  Claim C3. For every record and query, the search keeps a record exactly when the
  lowercased query is a substring of the lowercased type name or of the lowercased string
  form of some value of the record's data. The empty query matches every record, and the
  project view applies the same test to the project's items as the item list does.
\<close>

theorem search_matches_spec:
  "filteredItems items query = filter (spec_matches query) items
   \<and> filteredProjectItems project allItems query
       = filter (spec_matches query) (projectItems project allItems)
   \<and> spec_matches [] record"
  by (simp add: filteredItems_def filteredProjectItems_def projectItemMatches_eq
      itemMatches_spec [abs_def] spec_matches_empty)

theorem search_matches_spec_witness:
  "filteredItems [acmeItem] ''acme'' = [acmeItem]
   \<and> filteredItems [acmeItem] ''CORP'' = [acmeItem]
   \<and> filteredItems [acmeItem] ''acme widget'' = []"
  using search_matches_spec [of "[acmeItem]" "''acme''"]
    search_matches_spec [of "[acmeItem]" "''CORP''"]
    search_matches_spec [of "[acmeItem]" "''acme widget''"]
  by (simp add: spec_matches_def acmeItem_def objectValues_def toLowerChar_def sublist_code prefix_code)

section \<open>Item creation\<close>

lemma violates_iff:
  "violates formData field \<longleftrightarrow>
     field_required field \<and> \<not> truthy (getProp formData (field_id field))"
  by (auto simp: violates_def)

lemma map_fst_setProp:
  "map fst (setProp obj k v) = (if k \<in> set (map fst obj) then map fst obj else map fst obj @ [k])"
proof (induction obj)
  case Nil
  then show ?case by simp
next
  case (Cons kv obj)
  obtain k' v' where kv: "kv = (k', v')" by (cases kv)
  show ?case
  proof (cases "k' = k")
    case True
    then show ?thesis by (simp add: kv)
  next
    case False
    then show ?thesis using Cons.IH by (simp add: kv)
  qed
qed

lemma setProp_keys: "fst ` set (setProp obj k v) = insert k (fst ` set obj)"
proof -
  have "set (map fst (setProp obj k v)) = insert k (set (map fst obj))"
    unfolding map_fst_setProp by auto
  then show ?thesis by simp
qed

lemma map_of_setProp: "map_of (setProp obj k v) = (map_of obj)(k \<mapsto> v)"
  by (induction obj) (auto simp: fun_eq_iff)

lemma map_of_noteViolation:
  "map_of (noteViolation formData errs g) k =
     (if violates formData g \<and> field_id g = k then Some (field_name g @ '' is required'')
      else map_of errs k)"
  by (simp add: noteViolation_def map_of_setProp)

lemma keys_noteViolation:
  "fst ` set (noteViolation formData errs g) =
     (if violates formData g then insert (field_id g) (fst ` set errs) else fst ` set errs)"
  by (simp add: noteViolation_def setProp_keys)

lemma validateForm_fold:
  "validateForm itemType formData =
     (foldl (noteViolation formData) [] (type_fields itemType),
      foldl (noteViolation formData) [] (type_fields itemType) = [])"
  by (simp add: validateForm_def Let_def)

lemma noteViolation_keys:
  "fst ` set (foldl (noteViolation formData) errs fs)
     = fst ` set errs \<union> field_id ` {f \<in> set fs. violates formData f}"
proof (induction fs arbitrary: errs)
  case Nil
  then show ?case by simp
next
  case (Cons f fs)
  show ?case
    unfolding foldl_Cons Cons.IH keys_noteViolation
    by auto
qed

lemma noteViolation_message:
  assumes "distinct (map field_id fs)" "f \<in> set fs" "violates formData f"
  shows "map_of (foldl (noteViolation formData) errs fs) (field_id f)
           = Some (field_name f @ '' is required'')"
  using assms
proof (induction fs rule: rev_induct)
  case Nil
  then show ?case by simp
next
  case (snoc g fs)
  show ?case
  proof (cases "f = g")
    case True
    then show ?thesis using snoc.prems(3)
      by (simp add: map_of_noteViolation)
  next
    case False
    then have "f \<in> set fs" using snoc.prems(2) by simp
    moreover have "distinct (map field_id fs)" using snoc.prems(1) by simp
    ultimately have ih: "map_of (foldl (noteViolation formData) errs fs) (field_id f)
           = Some (field_name f @ '' is required'')"
      using snoc.IH snoc.prems(3) by blast
    have "field_id g \<noteq> field_id f"
      using snoc.prems(1) \<open>f \<in> set fs\<close> by auto
    then show ?thesis using ih
      by (simp add: map_of_noteViolation)
  qed
qed

lemma handleSave_Inl:
  "handleSave nowMs nowIso itemType formData = Inl errs \<longleftrightarrow>
     errs = foldl (noteViolation formData) [] (type_fields itemType) \<and> errs \<noteq> []"
  by (auto simp: handleSave_def validateForm_fold)

lemma errs_empty_iff:
  "foldl (noteViolation formData) [] fs = [] \<longleftrightarrow>
     \<not> (\<exists>f \<in> set fs. violates formData f)"
proof -
  have "foldl (noteViolation formData) [] fs = [] \<longleftrightarrow>
          fst ` set (foldl (noteViolation formData) [] fs) = {}"
    by simp
  also have "\<dots> \<longleftrightarrow> \<not> (\<exists>f \<in> set fs. violates formData f)"
    unfolding noteViolation_keys by auto
  finally show ?thesis .
qed

text \<open>
  Claim C1, as the code has it. Item creation fails exactly when some required field has
  a falsy value (missing, the empty string, \<^verbatim>\<open>0\<close>, \<^verbatim>\<open>false\<close> or \<^verbatim>\<open>null\<close>).
  The error object then has one entry for the id of every such field, and no other; when
  the field ids are distinct, the entry of each such field reads "<name> is required".
  No test on number fields is made.
\<close>

theorem creation_fails_iff_required_falsy:
  "(isl (handleSave nowMs nowIso itemType formData) \<longleftrightarrow>
      (\<exists>field \<in> set (type_fields itemType).
         field_required field \<and> \<not> truthy (getProp formData (field_id field))))
   \<and> (\<forall>errs. handleSave nowMs nowIso itemType formData = Inl errs \<longrightarrow>
         fst ` set errs
           = field_id ` {field \<in> set (type_fields itemType).
               field_required field \<and> \<not> truthy (getProp formData (field_id field))}
         \<and> (distinct (map field_id (type_fields itemType)) \<longrightarrow>
              (\<forall>field \<in> set (type_fields itemType).
                 field_required field \<and> \<not> truthy (getProp formData (field_id field)) \<longrightarrow>
                 map_of errs (field_id field) = Some (field_name field @ '' is required''))))"
proof (intro conjI allI impI)
  show "isl (handleSave nowMs nowIso itemType formData) \<longleftrightarrow>
      (\<exists>field \<in> set (type_fields itemType).
         field_required field \<and> \<not> truthy (getProp formData (field_id field)))"
    using errs_empty_iff [of formData "type_fields itemType"]
    by (simp add: handleSave_def validateForm_fold violates_iff)
next
  fix errs
  assume "handleSave nowMs nowIso itemType formData = Inl errs"
  then have e: "errs = foldl (noteViolation formData) [] (type_fields itemType)"
    by (simp add: handleSave_Inl)
  show "fst ` set errs
           = field_id ` {field \<in> set (type_fields itemType).
               field_required field \<and> \<not> truthy (getProp formData (field_id field))}"
    unfolding e noteViolation_keys by (simp add: violates_iff)
  assume d: "distinct (map field_id (type_fields itemType))"
  show "\<forall>field \<in> set (type_fields itemType).
          field_required field \<and> \<not> truthy (getProp formData (field_id field)) \<longrightarrow>
          map_of errs (field_id field) = Some (field_name field @ '' is required'')"
    unfolding e using noteViolation_message [OF d] by (simp add: violates_iff)
qed

theorem creation_fails_iff_required_falsy_witness:
  "handleSave 5 ''2024-03-01T00:00:00.000Z'' productsType []
     = Inl [(''field_1'', ''Name is required''), (''field_2'', ''Price is required'')]
   \<and> fst ` set [(''field_1'', ''Name is required''), (''field_2'', ''Price is required'')]
     = field_id ` set (type_fields productsType)"
proof -
  have h: "handleSave 5 ''2024-03-01T00:00:00.000Z'' productsType []
     = Inl [(''field_1'', ''Name is required''), (''field_2'', ''Price is required'')]"
    by (simp add: handleSave_def validateForm_def noteViolation_def violates_def getProp_def
        productsType_def nameField_def priceField_def)
  have "{field \<in> set (type_fields productsType).
           field_required field \<and> \<not> truthy (getProp [] (field_id field))}
          = set (type_fields productsType)"
    by (auto simp: productsType_def nameField_def priceField_def getProp_def)
  with h creation_fails_iff_required_falsy [of 5 "''2024-03-01T00:00:00.000Z''" productsType "[]"]
  show ?thesis by simp
qed

text \<open>
  Claim C1 as stated fails: a required number field holding the text \<^verbatim>\<open>abc\<close> is in
  violation by the specification's rule, and the item is created.
\<close>

theorem number_not_coercible_counterexample:
  "priceField \<in> set (type_fields productsType)
   \<and> spec_violation [(''field_1'', VStr ''Widget''), (''field_2'', VStr ''abc'')] priceField
   \<and> handleSave 5 ''2024-03-01T00:00:00.000Z'' productsType
        [(''field_1'', VStr ''Widget''), (''field_2'', VStr ''abc'')]
      = Inr \<lparr>item_id = ''item_5'', item_typeId = ''type_1'', item_typeName = ''Products'',
              item_data = [(''field_1'', VStr ''Widget''), (''field_2'', VStr ''abc'')],
              item_createdAt = ''2024-03-01T00:00:00.000Z''\<rparr>"
  by (simp add: handleSave_def validateForm_def noteViolation_def violates_def getProp_def
      productsType_def nameField_def priceField_def spec_violation_def spec_coercible_def trim_def isSpace_def
      decimalLiteral_def isDigit_def natToString.simps digitChar_def)

section \<open>Item type creation\<close>

lemma newFieldOptions_cases:
  "newFieldOptions ty raw =
     (if ty = Some Select \<and> raw \<noteq> []
      then Some (filter (\<lambda>opt. opt \<noteq> []) (map trim (split CHR '','' raw))) else None)"
  by (simp add: newFieldOptions_def)

lemma addField_keeps:
  assumes "\<forall>f \<in> set (cs_fields st). optionsOnlyOnSelect f"
  shows "\<forall>f \<in> set (cs_fields (addField nowMs st)). optionsOnlyOnSelect f"
  using assms
  by (auto simp: addField_def Let_def optionsOnlyOnSelect_def newFieldOptions_def
      split: option.splits if_splits)

lemma creatorStep_keeps:
  assumes "\<forall>f \<in> set (cs_fields st). optionsOnlyOnSelect f"
  shows "\<forall>f \<in> set (cs_fields (creatorStep st ev)). optionsOnlyOnSelect f"
proof (cases ev)
  case (AddField n)
  then show ?thesis using addField_keeps [OF assms] by simp
next
  case (RemoveField fid)
  then show ?thesis using assms by (simp add: removeField_def)
next
  case (SetDraft d)
  then show ?thesis using assms by simp
next
  case (SetSelectOptions s)
  then show ?thesis using assms by simp
qed

lemma foldl_creatorStep_keeps:
  "\<forall>f \<in> set (cs_fields st). optionsOnlyOnSelect f \<Longrightarrow>
   \<forall>f \<in> set (cs_fields (foldl creatorStep st evs)). optionsOnlyOnSelect f"
proof (induction evs arbitrary: st)
  case Nil
  then show ?case by simp
next
  case (Cons ev evs)
  have "\<forall>f \<in> set (cs_fields (creatorStep st ev)). optionsOnlyOnSelect f"
    using Cons.prems by (rule creatorStep_keeps)
  then show ?case using Cons.IH by simp
qed

text \<open>
  Claim C7, as the code has it. Whatever is done in the form, a field of a kind other
  than select carries no options, and an options list never holds an empty token. A
  field added with \<^verbatim>\<open>addField\<close> carries options exactly when the draft's kind is
  select and the raw option input is not empty; the list is then the raw input split
  on commas, each token trimmed, the empty tokens dropped (which may leave no token).
\<close>

theorem options_only_on_select:
  "(\<forall>field \<in> set (cs_fields (foldl creatorStep initialCreatorState events)).
      (field_type field \<noteq> Select \<longrightarrow> field_options field = None)
      \<and> (\<forall>opts. field_options field = Some opts \<longrightarrow> [] \<notin> set opts))
   \<and> (draft_name (cs_currentField st) = Some nm \<and> nm \<noteq> [] \<longrightarrow>
        field_options (last (cs_fields (addField nowMs st)))
          = (if draft_type (cs_currentField st) = Some Select \<and> cs_selectOptions st \<noteq> []
             then Some (filter (\<lambda>opt. opt \<noteq> []) (map trim (split CHR '','' (cs_selectOptions st))))
             else None))"
proof -
  have "\<forall>f \<in> set (cs_fields (foldl creatorStep initialCreatorState events)). optionsOnlyOnSelect f"
    by (rule foldl_creatorStep_keeps) (simp add: initialCreatorState_def)
  then have 1: "\<forall>field \<in> set (cs_fields (foldl creatorStep initialCreatorState events)).
      (field_type field \<noteq> Select \<longrightarrow> field_options field = None)
      \<and> (\<forall>opts. field_options field = Some opts \<longrightarrow> [] \<notin> set opts)"
    by (auto simp: optionsOnlyOnSelect_def split: option.splits)
  have 2: "draft_name (cs_currentField st) = Some nm \<and> nm \<noteq> [] \<longrightarrow>
        field_options (last (cs_fields (addField nowMs st)))
          = (if draft_type (cs_currentField st) = Some Select \<and> cs_selectOptions st \<noteq> []
             then Some (filter (\<lambda>opt. opt \<noteq> []) (map trim (split CHR '','' (cs_selectOptions st))))
             else None)"
    by (simp add: addField_def Let_def newFieldOptions_def)
  from 1 2 show ?thesis by (rule conjI)
qed

theorem options_only_on_select_witness:
  "map field_options
     (cs_fields (foldl creatorStep initialCreatorState
        [SetDraft selectDraft, SetSelectOptions ''red, green,, '', AddField 7,
         SetDraft selectDraft, SetSelectOptions '', ,'', AddField 8]))
     = [Some [''red'', ''green''], Some []]"
  using options_only_on_select [of
      "[SetDraft selectDraft, SetSelectOptions ''red, green,, '', AddField 7,
        SetDraft selectDraft, SetSelectOptions '', ,'', AddField 8]"
      "initialCreatorState\<lparr>cs_currentField := selectDraft, cs_selectOptions := ''red, green,, ''\<rparr>"
      "''Colour''" 7]
  by (simp add: initialCreatorState_def selectDraft_def addField_def newFieldOptions_def
      trim_def isSpace_def emptyDraft_def)

text \<open>
  Claim C7 as stated fails: a select field added while the option input is empty
  carries no options at all.
\<close>

theorem select_without_options_counterexample:
  "cs_fields (addField 7 (initialCreatorState\<lparr>cs_currentField := selectDraft\<rparr>))
     = [\<lparr>field_id = ''field_7'', field_name = ''Colour'', field_type = Select,
         field_required = False, field_options = None\<rparr>]
   \<and> \<not> spec_optionsInvariant \<lparr>field_id = ''field_7'', field_name = ''Colour'', field_type = Select,
         field_required = False, field_options = None\<rparr>"
  by (simp add: addField_def initialCreatorState_def selectDraft_def newFieldOptions_def
      spec_optionsInvariant_def natToString.simps digitChar_def)

section \<open>Projects\<close>

text \<open>
  Claim C4 as stated fails: \<^verbatim>\<open>addItemsToProject\<close> appends what it is given, so adding
  \<^verbatim>\<open>[x]\<close> twice leaves \<^verbatim>\<open>x\<close> twice in \<^verbatim>\<open>itemIds\<close>.
\<close>

theorem add_items_twice_counterexample:
  "project_itemIds (addItemsToProject ''t2'' (addItemsToProject ''t1'' (sampleProject\<lparr>project_itemIds := []\<rparr>) [''x'']) [''x''])
     = [''x'', ''x'']
   \<and> \<not> distinct (project_itemIds
         (addItemsToProject ''t2'' (addItemsToProject ''t1'' (sampleProject\<lparr>project_itemIds := []\<rparr>) [''x'']) [''x'']))"
  by (simp add: addItemsToProject_def)

lemma toggle_distinct:
  "distinct sel \<Longrightarrow> distinct (toggleItemSelection sel i)"
  by (simp add: toggleItemSelection_def distinct_removeAll)

lemma toggle_set:
  "set (toggleItemSelection sel i) \<subseteq> insert i (set sel)"
  by (auto simp: toggleItemSelection_def)

lemma foldl_toggle:
  "distinct sel \<Longrightarrow> distinct (foldl toggleItemSelection sel clicks)
     \<and> set (foldl toggleItemSelection sel clicks) \<subseteq> set sel \<union> set clicks"
proof (induction clicks arbitrary: sel)
  case Nil
  then show ?case by simp
next
  case (Cons c clicks)
  have d: "distinct (toggleItemSelection sel c)"
    using Cons.prems by (rule toggle_distinct)
  from Cons.IH [OF d] toggle_set [of sel c] show ?case by auto
qed

text \<open>
  Claim C4, as the code has it. \<^verbatim>\<open>addItemsToProject\<close> appends the ids it is given
  without looking at the membership. The add dialog only offers the items that are not
  in the project and collects the clicked ids in a set: for a project without duplicate
  ids, whatever is clicked there, the ids after the add are the old ones followed by the
  selected ones, and no id occurs twice.
\<close>

theorem add_items_from_dialog_distinct:
  assumes "distinct (project_itemIds project)"
    and "set clicks \<subseteq> item_id ` set (availableItems project allItems)"
  shows "distinct (project_itemIds (handleAddItems now project clicks))
     \<and> project_itemIds (handleAddItems now project clicks)
         = project_itemIds project @ foldl toggleItemSelection [] clicks"
proof -
  have a: "distinct (foldl toggleItemSelection [] clicks)"
    and b: "set (foldl toggleItemSelection [] clicks) \<subseteq> set clicks"
    using foldl_toggle [of "[]" clicks] by auto
  have "set clicks \<inter> set (project_itemIds project) = {}"
    using assms(2) by (auto simp: availableItems_def)
  with a b assms(1) show ?thesis
    by (auto simp: handleAddItems_def addItemsToProject_def)
qed

theorem add_items_from_dialog_distinct_witness:
  "project_itemIds (handleAddItems ''t1'' sampleProject [''item_b'', ''item_c'', ''item_b''])
     = [''item_a'', ''item_c'']
   \<and> distinct (project_itemIds (handleAddItems ''t1'' sampleProject [''item_b'', ''item_c'', ''item_b'']))"
  using add_items_from_dialog_distinct [of sampleProject "[''item_b'', ''item_c'', ''item_b'']"
      "[sampleItem ''item_a'', sampleItem ''item_b'', sampleItem ''item_c'']" "''t1''"]
  by (simp add: sampleProject_def sampleItem_def availableItems_def toggleItemSelection_def)

text \<open>
  Claim C5 as stated fails: a project that holds none of the deleted ids comes back with
  a new \<^verbatim>\<open>updatedAt\<close>.
\<close>

theorem delete_cascade_unchanged_counterexample:
  "set (project_itemIds sampleProject) \<inter> set [''item_b''] = {}
   \<and> snd (handleDeleteItems sampleClock [''item_b''] [] [sampleProject]) \<noteq> [sampleProject]"
  by (simp add: handleDeleteItems_def sampleProject_def sampleClock_def)

text \<open>
  Claim C5, as the code has it. The deletion cascade removes each deleted id from the
  \<^verbatim>\<open>itemIds\<close> of every project and sets \<^verbatim>\<open>updatedAt\<close> of every project to the
  time of the call, whether or not its \<^verbatim>\<open>itemIds\<close> changed; nothing else of a
  project changes, and the projects keep their number and order.
\<close>

theorem delete_cascade_stamps_all:
  "length (snd (handleDeleteItems clock itemIds items projects)) = length projects
   \<and> (\<forall>k < length projects.
         snd (handleDeleteItems clock itemIds items projects) ! k
           = (projects ! k)\<lparr>project_itemIds := filter (\<lambda>i. i \<notin> set itemIds) (project_itemIds (projects ! k)),
                            project_updatedAt := clock k\<rparr>
         \<and> set (project_itemIds (snd (handleDeleteItems clock itemIds items projects) ! k))
             = set (project_itemIds (projects ! k)) - set itemIds)"
  by (auto simp: handleDeleteItems_def nth_enumerate_eq)

theorem delete_cascade_stamps_all_witness:
  "snd (handleDeleteItems sampleClock [''item_a''] [] [sampleProject]) ! 0
     = sampleProject\<lparr>project_itemIds := [], project_updatedAt := ''2024-06-01T00:00:00.000Z''\<rparr>"
  using delete_cascade_stamps_all [of sampleClock "[''item_a'']" "[]" "[sampleProject]"]
  by (simp add: sampleProject_def sampleClock_def)

section \<open>Export\<close>

subsection \<open>Facts about the grouping\<close>

lemma set_firstSeen [simp]: "set (firstSeen xs) = set xs"
  by (induction xs) auto

lemma distinct_firstSeen [simp]: "distinct (firstSeen xs)"
  by (induction xs) (auto simp: distinct_removeAll)

lemma firstSeen_snoc:
  "firstSeen (xs @ [x]) = (if x \<in> set xs then firstSeen xs else firstSeen xs @ [x])"
  by (induction xs) auto

lemma reduceGroups_snoc:
  "reduceGroups acc (xs @ [x]) =
     (case reduceGroups acc xs of Inl e \<Rightarrow> Inl e | Inr acc' \<Rightarrow> groupStep acc' x)"
  by (induction xs arbitrary: acc) (auto split: sum.splits)

lemma groupedByType_snoc:
  "groupedByType (xs @ [x]) =
     (case groupedByType xs of Inl e \<Rightarrow> Inl e | Inr acc \<Rightarrow> groupStep acc x)"
  by (simp add: groupedByType_def reduceGroups_snoc)

lemma map_of_keyed:
  "map_of (map (\<lambda>k. (k, f k)) ks) k = (if k \<in> set ks then Some (f k) else None)"
  by (induction ks) auto

lemma setProp_keyed_new:
  "k \<notin> set ks \<Longrightarrow> setProp (map (\<lambda>k. (k, f k)) ks) k v = map (\<lambda>k. (k, f k)) ks @ [(k, v)]"
  by (induction ks) auto

lemma setProp_keyed_old:
  "distinct ks \<Longrightarrow> k \<in> set ks \<Longrightarrow>
   setProp (map (\<lambda>k. (k, f k)) ks) k v = map (\<lambda>k'. (k', if k' = k then v else f k')) ks"
proof (induction ks)
  case Nil
  then show ?case by simp
next
  case (Cons a ks)
  show ?case
  proof (cases "a = k")
    case True
    then have "k \<notin> set ks" using Cons.prems(1) by simp
    then have "map (\<lambda>k'. (k', if k' = k then v else f k')) ks = map (\<lambda>k. (k, f k)) ks"
      by (intro map_cong) auto
    then show ?thesis using True by simp
  next
    case False
    then show ?thesis using Cons by simp
  qed
qed

lemma groupStep_spec_groups:
  "groupStep (spec_groups xs) x =
     (if item_typeName x \<notin> item_typeName ` set xs \<and> item_typeName x \<in> set objectPrototypeKeys
      then Inl TypeError else Inr (spec_groups (xs @ [x])))"
proof (cases "item_typeName x \<in> item_typeName ` set xs")
  case True
  then have m: "map_of (spec_groups xs) (item_typeName x)
      = Some (filter (\<lambda>r. item_typeName r = item_typeName x) xs)"
    by (simp add: spec_groups_def map_of_keyed)
  have "setProp (spec_groups xs) (item_typeName x)
          (filter (\<lambda>r. item_typeName r = item_typeName x) xs @ [x]) = spec_groups (xs @ [x])"
    unfolding spec_groups_def using True
    by (simp add: setProp_keyed_old firstSeen_snoc)
  then show ?thesis using True by (simp add: groupStep_def m)
next
  case False
  then have m: "map_of (spec_groups xs) (item_typeName x) = None"
    by (simp add: spec_groups_def map_of_keyed)
  have ne: "\<And>r. r \<in> set xs \<Longrightarrow> item_typeName r \<noteq> item_typeName x"
    using False by (metis image_eqI)
  then have e: "filter (\<lambda>r. item_typeName r = item_typeName x) xs = []"
    by (simp add: filter_empty_conv)
  have "setProp (spec_groups xs) (item_typeName x) [x] = spec_groups (xs @ [x])"
    unfolding spec_groups_def using False
    by (simp add: setProp_keyed_new firstSeen_snoc e ne ne [symmetric])
  then show ?thesis using False by (simp add: groupStep_def m)
qed

lemma grouping_throws_on_inherited_name:
  "groupedByType [sampleItem ''item_1'' \<lparr>item_typeName := ''constructor''\<rparr>] = Inl TypeError"
  by (simp add: groupedByType_def groupStep_def objectPrototypeKeys_def sampleItem_def)

lemma groupedByType_Inr:
  "groupedByType xs = Inr acc \<Longrightarrow> acc = spec_groups xs"
proof (induction xs arbitrary: acc rule: rev_induct)
  case Nil
  then show ?case by (simp add: groupedByType_def spec_groups_def)
next
  case (snoc x xs)
  from snoc.prems obtain acc' where a: "groupedByType xs = Inr acc'" and s: "groupStep acc' x = Inr acc"
    by (auto simp: groupedByType_snoc split: sum.splits)
  have "acc' = spec_groups xs" using snoc.IH a by simp
  with s show ?case by (simp add: groupStep_spec_groups split: if_splits)
qed

lemma groupedByType_ok:
  "\<forall>r \<in> set xs. item_typeName r \<notin> set objectPrototypeKeys \<Longrightarrow>
   groupedByType xs = Inr (spec_groups xs)"
proof (induction xs rule: rev_induct)
  case Nil
  then show ?case by (simp add: groupedByType_def spec_groups_def)
next
  case (snoc x xs)
  then have "groupedByType xs = Inr (spec_groups xs)" by simp
  moreover have "item_typeName x \<notin> set objectPrototypeKeys" using snoc.prems by simp
  ultimately show ?case by (simp add: groupedByType_snoc groupStep_spec_groups)
qed

lemma objectEntries_no_index:
  "\<forall>k \<in> fst ` set obj. \<not> isArrayIndex k \<Longrightarrow> objectEntries obj = obj"
proof -
  assume h: "\<forall>k \<in> fst ` set obj. \<not> isArrayIndex k"
  have 1: "filter (\<lambda>(k, v). isArrayIndex k) obj = []"
    using h by (auto simp: filter_empty_conv)
  have 2: "filter (\<lambda>(k, v). \<not> isArrayIndex k) obj = obj"
    using h by (auto simp: filter_id_conv)
  show ?thesis by (simp add: objectEntries_def 1 2)
qed

lemma set_objectEntries: "set (objectEntries obj) = set obj"
  by (auto simp: objectEntries_def)

subsection \<open>Facts about the sheets\<close>

lemma isArrayIndex_2024: "isArrayIndex ''2024''"
  by (simp add: isArrayIndex_def arrayIndex_def isDigit_def digitsValue_def)

lemma not_isArrayIndex_Products: "\<not> isArrayIndex ''Products''"
  by (simp add: isArrayIndex_def arrayIndex_def isDigit_def)

lemma sampleLocaleDate_simps:
  "sampleLocaleDate (VStr ''2024-01-02T00:00:00.000Z'') = ''1/2/2024''"
  "sampleLocaleDate (VStr ''2024-01-04T00:00:00.000Z'') = ''1/4/2024''"
  "sampleLocaleDate (VStr ''2024-01-15'') = ''1/15/2024''"
  by (simp_all add: sampleLocaleDate_def stripZero_def)

lemma find_first_match:
  "P x \<Longrightarrow> \<forall>u \<in> set pre. \<not> P u \<Longrightarrow> find P (pre @ x # post) = Some x"
  by (induction pre) auto

lemma typeSheet_None:
  "typeName \<notin> type_name ` set itemTypes \<Longrightarrow> typeSheet localeDate itemTypes (typeName, typeItems) = None"
proof -
  assume "typeName \<notin> type_name ` set itemTypes"
  then have "\<not> (\<exists>ty. ty \<in> set itemTypes \<and> type_name ty = typeName)" by auto
  then have "find (\<lambda>ty. type_name ty = typeName) itemTypes = None"
    by (simp add: find_None_iff)
  then show ?thesis by (simp add: typeSheet_def)
qed

lemma typeSheet_Some:
  "find (\<lambda>ty. type_name ty = typeName) itemTypes = Some ty \<Longrightarrow>
   typeSheet localeDate itemTypes (typeName, typeItems)
     = Some \<lparr>sheet_name = take 31 typeName,
             sheet_data = map VStr (headersOf ty) # map (dataRow localeDate ty) typeItems,
             sheet_cols = Some (colWidths (headersOf ty) (map (dataRow localeDate ty) typeItems))\<rparr>"
  by (simp add: typeSheet_def Let_def)

lemma typeSheet_registered:
  "typeName \<in> type_name ` set itemTypes \<Longrightarrow>
   \<exists>s. typeSheet localeDate itemTypes (typeName, typeItems) = Some s"
proof -
  assume "typeName \<in> type_name ` set itemTypes"
  then have "\<exists>ty. ty \<in> set itemTypes \<and> type_name ty = typeName" by auto
  then have "find (\<lambda>ty. type_name ty = typeName) itemTypes \<noteq> None"
    by (simp add: find_None_iff)
  then obtain ty where "find (\<lambda>ty. type_name ty = typeName) itemTypes = Some ty" by auto
  then show ?thesis by (simp add: typeSheet_Some)
qed

lemma typeSheet_cells:
  assumes "typeSheet localeDate itemTypes (typeName, typeItems) = Some sheet"
  shows "\<exists>itemType. find (\<lambda>ty. type_name ty = typeName) itemTypes = Some itemType
     \<and> length (sheet_data sheet) = Suc (length typeItems)
     \<and> (\<forall>r < length typeItems. \<forall>j < length (type_fields itemType).
          fieldCell sheet r j
            = jsOr (fieldValue (typeItems ! r) (type_fields itemType ! j)) (VStr []))"
proof -
  from assms obtain itemType where f: "find (\<lambda>ty. type_name ty = typeName) itemTypes = Some itemType"
    by (auto simp: typeSheet_def split: option.splits)
  then have s: "sheet = \<lparr>sheet_name = take 31 typeName,
             sheet_data = map VStr (headersOf itemType) # map (dataRow localeDate itemType) typeItems,
             sheet_cols = Some (colWidths (headersOf itemType) (map (dataRow localeDate itemType) typeItems))\<rparr>"
    using assms by (simp add: typeSheet_Some)
  have "\<forall>r < length typeItems. \<forall>j < length (type_fields itemType).
          fieldCell sheet r j
            = jsOr (fieldValue (typeItems ! r) (type_fields itemType ! j)) (VStr [])"
    by (simp add: s fieldCell_def dataRow_def fieldValue_def)
  moreover have "length (sheet_data sheet) = Suc (length typeItems)"
    by (simp add: s)
  ultimately show ?thesis using f by blast
qed

lemma falsy_iff: "\<not> truthy v \<longleftrightarrow> v \<in> {Undefined, Null, VBool False, VNum 0, VStr []}"
  by (cases v) auto

lemma typeSheet_pairs:
  "map (\<lambda>s. (sheet_name s, sheet_data s)) (List.map_filter (typeSheet localeDate itemTypes) gs)
     = List.map_filter
         (\<lambda>(typeName, group).
            case find (\<lambda>ty. type_name ty = typeName) itemTypes of
              None \<Rightarrow> None
            | Some ty \<Rightarrow>
                Some (take 31 typeName,
                      (VStr ''ID'' # VStr ''Created At'' # map (\<lambda>field. VStr (field_name field)) (type_fields ty))
                      # map (dataRow localeDate ty) group)) gs"
  by (induction gs)
    (auto simp: List.map_filter_simps typeSheet_def headersOf_def Let_def split: option.splits)

lemma typeSheets_spec:
  "map (\<lambda>s. (sheet_name s, sheet_data s))
     (List.map_filter (typeSheet localeDate itemTypes) (spec_groups records))
   = spec_typeSheets localeDate itemTypes records"
  by (simp add: typeSheet_pairs spec_typeSheets_def)

lemma typeSheets_names:
  "map sheet_name (List.map_filter (typeSheet localeDate itemTypes) (spec_groups records))
   = map fst (spec_typeSheets localeDate itemTypes records)"
proof -
  have "map fst (map (\<lambda>s. (sheet_name s, sheet_data s))
          (List.map_filter (typeSheet localeDate itemTypes) (spec_groups records)))
        = map fst (spec_typeSheets localeDate itemTypes records)"
    by (simp only: typeSheets_spec)
  then show ?thesis by (simp add: comp_def)
qed

lemma objectEntries_spec_groups:
  assumes "\<forall>r \<in> set records. \<not> isArrayIndex (item_typeName r)"
  shows "objectEntries (spec_groups records) = spec_groups records"
proof -
  have "\<forall>k \<in> fst ` set (spec_groups records). \<not> isArrayIndex k"
    using assms by (auto simp: spec_groups_def)
  then show ?thesis by (rule objectEntries_no_index)
qed

subsection \<open>Facts about the library calls\<close>

lemma book_append_sheet_ok:
  assumes "sheet_name sheet \<noteq> []" "length workbook < 65535"
    "check_ws_name xlsx (sheet_name sheet)" "sheet_name sheet \<notin> set (map sheet_name workbook)"
  shows "book_append_sheet xlsx workbook sheet = Inr (workbook @ [sheet])"
  using assms by (simp add: book_append_sheet_def)

lemma appendTypeSheets_ok:
  assumes "\<forall>s \<in> set (List.map_filter (typeSheet localeDate itemTypes) entries).
             sheet_name s \<noteq> [] \<and> check_ws_name xlsx (sheet_name s)"
    and "distinct (map sheet_name (workbook @ List.map_filter (typeSheet localeDate itemTypes) entries))"
    and "length (workbook @ List.map_filter (typeSheet localeDate itemTypes) entries) \<le> 65535"
  shows "appendTypeSheets xlsx localeDate itemTypes workbook entries
           = Inr (workbook @ List.map_filter (typeSheet localeDate itemTypes) entries)"
  using assms
proof (induction entries arbitrary: workbook)
  case Nil
  then show ?case by (simp add: List.map_filter_simps)
next
  case (Cons entry entries)
  show ?case
  proof (cases "typeSheet localeDate itemTypes entry")
    case None
    then show ?thesis using Cons by (simp add: List.map_filter_simps)
  next
    case (Some sheet)
    have mf: "List.map_filter (typeSheet localeDate itemTypes) (entry # entries)
                = sheet # List.map_filter (typeSheet localeDate itemTypes) entries"
      using Some by (simp add: List.map_filter_simps)
    have a: "book_append_sheet xlsx workbook sheet = Inr (workbook @ [sheet])"
      using Cons.prems unfolding mf by (intro book_append_sheet_ok) auto
    have "appendTypeSheets xlsx localeDate itemTypes (workbook @ [sheet]) entries
           = Inr ((workbook @ [sheet]) @ List.map_filter (typeSheet localeDate itemTypes) entries)"
      using Cons.prems unfolding mf by (intro Cons.IH) auto
    then show ?thesis using Some a by (simp add: mf)
  qed
qed

text \<open>A group without a registered type leaves the workbook as it is.\<close>

lemma appendTypeSheets_skip:
  "appendTypeSheets xlsx localeDate itemTypes workbook entries
     = appendTypeSheets xlsx localeDate itemTypes workbook
         (filter (\<lambda>(typeName, typeItems). typeName \<in> type_name ` set itemTypes) entries)"
proof (induction entries arbitrary: workbook)
  case Nil
  then show ?case by simp
next
  case (Cons entry entries)
  obtain typeName typeItems where e: "entry = (typeName, typeItems)" by (cases entry)
  show ?case
  proof (cases "typeName \<in> type_name ` set itemTypes")
    case True
    then show ?thesis using Cons.IH by (simp add: e split: option.splits sum.splits)
  next
    case False
    then have "typeSheet localeDate itemTypes (typeName, typeItems) = None"
      by (rule typeSheet_None)
    then show ?thesis using False Cons.IH by (simp add: e)
  qed
qed

lemma appendTypeSheets_none_registered:
  assumes "\<forall>(typeName, typeItems) \<in> set entries. typeName \<notin> type_name ` set itemTypes"
  shows "appendTypeSheets xlsx localeDate itemTypes workbook entries = Inr workbook"
proof -
  have "filter (\<lambda>(typeName, typeItems). typeName \<in> type_name ` set itemTypes) entries = []"
    using assms by (auto simp: filter_empty_conv)
  then show ?thesis using appendTypeSheets_skip [of xlsx localeDate itemTypes workbook entries]
    by simp
qed

lemma book_append_sheet_sheets:
  "book_append_sheet xlsx workbook sheet = Inr workbook' \<Longrightarrow>
   \<exists>name. workbook' = workbook @ [sheet\<lparr>sheet_name := name\<rparr>]"
  by (auto simp: book_append_sheet_def split: option.splits if_splits)

lemma appendTypeSheets_sheets:
  "appendTypeSheets xlsx localeDate itemTypes workbook entries = Inr workbook' \<Longrightarrow>
   \<exists>new. workbook' = workbook @ new
      \<and> (\<forall>sheet \<in> set new. \<exists>typeName typeItems s name.
            typeSheet localeDate itemTypes (typeName, typeItems) = Some s
            \<and> sheet = s\<lparr>sheet_name := name\<rparr>)"
proof (induction entries arbitrary: workbook)
  case Nil
  then show ?case by simp
next
  case (Cons entry entries)
  obtain typeName typeItems where e: "entry = (typeName, typeItems)" by (cases entry)
  show ?case
  proof (cases "typeSheet localeDate itemTypes entry")
    case None
    then show ?thesis using Cons by simp
  next
    case (Some s)
    from Cons.prems Some obtain wb1 where 1: "book_append_sheet xlsx workbook s = Inr wb1"
      and 2: "appendTypeSheets xlsx localeDate itemTypes wb1 entries = Inr workbook'"
      by (auto split: sum.splits)
    from book_append_sheet_sheets [OF 1] obtain name
      where wb1: "wb1 = workbook @ [s\<lparr>sheet_name := name\<rparr>]" by blast
    from Cons.IH [OF 2] obtain new where n: "workbook' = wb1 @ new"
      and a: "\<forall>sheet \<in> set new. \<exists>typeName typeItems s name.
            typeSheet localeDate itemTypes (typeName, typeItems) = Some s
            \<and> sheet = s\<lparr>sheet_name := name\<rparr>"
      by blast
    have "workbook' = workbook @ (s\<lparr>sheet_name := name\<rparr> # new)"
      by (simp add: n wb1)
    moreover have "\<forall>sheet \<in> set (s\<lparr>sheet_name := name\<rparr> # new). \<exists>typeName typeItems s name.
            typeSheet localeDate itemTypes (typeName, typeItems) = Some s
            \<and> sheet = s\<lparr>sheet_name := name\<rparr>"
      using a Some e by auto
    ultimately show ?thesis by blast
  qed
qed

lemma sampleXlsx_names:
  "check_ws_name sampleXlsx ''Products''" "check_ws_name sampleXlsx ''2024''"
  "check_ws_name sampleXlsx ''Tasks''" "check_ws_name sampleXlsx ''Project Info''"
  "\<not> check_ws_name sampleXlsx ''Parts/Tools''"
  by (simp_all add: sampleXlsx_def)

lemma sampleXlsx_accepts_short:
  "\<forall>sheet \<in> set workbook. \<forall>row \<in> set (sheet_data sheet). \<forall>cell \<in> set row.
      length (String cell) \<le> 32767 \<Longrightarrow> accepts_workbook sampleXlsx workbook"
  by (simp add: sampleXlsx_def)

text \<open>Every sheet of a document comes from \<open>typeSheet\<close>, up to the name the library gave it.\<close>

lemma exported_sheets_are_type_sheets:
  "(exportToExcel xlsx localeDate today items itemTypes selectedItems = Inr (Some doc) \<longrightarrow>
      (\<forall>sheet \<in> set (doc_sheets doc). \<exists>typeName typeItems s name.
          typeSheet localeDate itemTypes (typeName, typeItems) = Some s
          \<and> sheet = s\<lparr>sheet_name := name\<rparr>))
   \<and> (exportProject xlsx localeDate today project allItems itemTypes = Inr (Some doc) \<longrightarrow>
      (\<forall>sheet \<in> set (tl (doc_sheets doc)). \<exists>typeName typeItems s name.
          typeSheet localeDate itemTypes (typeName, typeItems) = Some s
          \<and> sheet = s\<lparr>sheet_name := name\<rparr>))"
proof (intro conjI impI)
  assume "exportToExcel xlsx localeDate today items itemTypes selectedItems = Inr (Some doc)"
  then obtain entries where "appendTypeSheets xlsx localeDate itemTypes [] entries = Inr (doc_sheets doc)"
    by (auto simp: exportToExcel_def writeFile_def Let_def split: if_splits sum.splits)
  from appendTypeSheets_sheets [OF this]
  show "\<forall>sheet \<in> set (doc_sheets doc). \<exists>typeName typeItems s name.
          typeSheet localeDate itemTypes (typeName, typeItems) = Some s
          \<and> sheet = s\<lparr>sheet_name := name\<rparr>"
    by auto
next
  assume "exportProject xlsx localeDate today project allItems itemTypes = Inr (Some doc)"
  then obtain entries wb1 where 1: "book_append_sheet xlsx [] (projectSheet localeDate project
        (projectItems project allItems)) = Inr wb1"
    and 2: "appendTypeSheets xlsx localeDate itemTypes wb1 entries = Inr (doc_sheets doc)"
    by (auto simp: exportProject_def writeFile_def Let_def split: if_splits sum.splits)
  from book_append_sheet_sheets [OF 1] obtain p where wb1: "wb1 = [p]" by auto
  from appendTypeSheets_sheets [OF 2] obtain new where "doc_sheets doc = wb1 @ new"
    and "\<forall>sheet \<in> set new. \<exists>typeName typeItems s name.
            typeSheet localeDate itemTypes (typeName, typeItems) = Some s
            \<and> sheet = s\<lparr>sheet_name := name\<rparr>"
    by blast
  then show "\<forall>sheet \<in> set (tl (doc_sheets doc)). \<exists>typeName typeItems s name.
          typeSheet localeDate itemTypes (typeName, typeItems) = Some s
          \<and> sheet = s\<lparr>sheet_name := name\<rparr>"
    by (simp add: wb1)
qed

text \<open>The throws of the library: a forbidden character, and a type named like the project sheet.\<close>

lemma export_throws_on_bad_sheet_name:
  "exportToExcel sampleXlsx sampleLocaleDate ''2024-06-01''
     [widgetItem\<lparr>item_typeName := ''Parts/Tools''\<rparr>] [productsType\<lparr>type_name := ''Parts/Tools''\<rparr>]
     [''item_1''] = Inl BadSheetName"
  by (simp add: exportToExcel_def groupedByType_def groupStep_def objectPrototypeKeys_def
      widgetItem_def productsType_def objectEntries_def isArrayIndex_def arrayIndex_def isDigit_def
      typeSheet_def Let_def book_append_sheet_def sampleXlsx_def)

lemma export_project_throws_on_duplicate_name:
  "exportProject sampleXlsx sampleLocaleDate ''2024-06-01'' productsProject
     [widgetItem\<lparr>item_typeName := ''Project Info''\<rparr>] [productsType\<lparr>type_name := ''Project Info''\<rparr>]
     = Inl DuplicateSheetName"
  by (simp add: exportProject_def projectItems_def productsProject_def groupedByType_def groupStep_def
      objectPrototypeKeys_def widgetItem_def productsType_def objectEntries_def isArrayIndex_def
      arrayIndex_def isDigit_def typeSheet_def Let_def book_append_sheet_def sampleXlsx_def
      projectSheet_def)

lemma export_throws_when_no_group_registered:
  assumes "selectedItems \<noteq> []"
    and "groupedByType (filter (\<lambda>item. item_id item \<in> set selectedItems) items) = Inr grouped"
    and "\<forall>(typeName, typeItems) \<in> set grouped. typeName \<notin> type_name ` set itemTypes"
  shows "exportToExcel xlsx localeDate today items itemTypes selectedItems = Inl WorkbookEmpty"
proof -
  have "\<forall>(typeName, typeItems) \<in> set (objectEntries grouped). typeName \<notin> type_name ` set itemTypes"
    using assms(3) by (simp add: set_objectEntries)
  then have "appendTypeSheets xlsx localeDate itemTypes [] (objectEntries grouped) = Inr []"
    by (rule appendTypeSheets_none_registered)
  then show ?thesis using assms(1,2) by (simp add: exportToExcel_def writeFile_def)
qed

text \<open>
  With a registered group beside it, the group without a registered type is passed over
  and the document is written: the first type named \<^verbatim>\<open>Products\<close> gives the header.
\<close>

lemma unregistered_group_skipped_example:
  "(case exportToExcel sampleXlsx sampleLocaleDate ''2024-06-01'' [widgetItem, orphanItem]
           [productsType, productsTypeLater] [''item_1'', ''item_4''] of
      Inr (Some doc) \<Rightarrow> map (\<lambda>s. (sheet_name s, sheet_data s)) (doc_sheets doc)
    | _ \<Rightarrow> [])
     = [(''Products'',
         [[VStr ''ID'', VStr ''Created At'', VStr ''Name'', VStr ''Price''],
          [VStr ''item_1'', VStr ''1/2/2024'', VStr ''Widget'', VStr []]])]"
  by (simp add: exportToExcel_def groupedByType_def groupStep_def objectPrototypeKeys_def
      widgetItem_def orphanItem_def productsType_def productsTypeLater_def objectEntries_def
      isArrayIndex_def arrayIndex_def isDigit_def typeSheet_def Let_def headersOf_def dataRow_def
      getProp_def jsOr_def nameField_def priceField_def sampleLocaleDate_def stripZero_def
      book_append_sheet_def writeFile_def sampleXlsx_def)

subsection \<open>The claims about export\<close>

text \<open>
  Claim C2 as stated fails: two records of the registered types \<^verbatim>\<open>Products\<close> and
  \<^verbatim>\<open>2024\<close>, met in that order, are exported with the sheet \<^verbatim>\<open>2024\<close> first,
  because \<^verbatim>\<open>Object.entries\<close> lists array-index keys before the others.
\<close>

theorem export_sheet_order_counterexample:
  "(case exportToExcel sampleXlsx sampleLocaleDate ''2024-06-01'' [widgetItem, yearItem]
           [productsType, yearType] [''item_1'', ''item_2''] of
      Inr (Some doc) \<Rightarrow> map sheet_name (doc_sheets doc)
    | _ \<Rightarrow> [])
     = [''2024'', ''Products'']
   \<and> map fst (spec_typeSheets sampleLocaleDate [productsType, yearType] [widgetItem, yearItem])
     = [''Products'', ''2024'']"
  by (simp add: exportToExcel_def groupedByType_def groupStep_def objectPrototypeKeys_def
      widgetItem_def yearItem_def productsType_def yearType_def objectEntries_def
      isArrayIndex_2024 not_isArrayIndex_Products List.map_filter_def typeSheet_def Let_def
      spec_typeSheets_def spec_groups_def book_append_sheet_def writeFile_def sampleXlsx_def
      nameField_def priceField_def headersOf_def dataRow_def getProp_def jsOr_def
      sampleLocaleDate_def stripZero_def)

text \<open>
  Claim C2, as the code has it. Take records none of whose type names is an array index
  or the name of a member of \<^verbatim>\<open>Object.prototype\<close>, and let the sheet names be the
  type names that name a registered type, cut to 31 characters, in the order in which
  each type name is first met in the input. If these names are non-empty, pass the name
  check of the library and differ from one another (and, in a project export, from
  \<^verbatim>\<open>Project Info\<close>), if there is at least one of them in an item export, and if the
  library accepts the workbook, then the export produces one sheet per such type name, in
  that order. The header row of each sheet is \<^verbatim>\<open>ID\<close>, \<^verbatim>\<open>Created At\<close>, then the
  field names of the first registered type of that name in declared order; its data rows
  are the rows of the records of the group, in input order. In a project export these
  sheets follow the project sheet.
\<close>

theorem export_sheets_in_first_seen_order:
  assumes "\<forall>r \<in> set records.
             item_typeName r \<notin> set objectPrototypeKeys \<and> \<not> isArrayIndex (item_typeName r)"
  shows "(selectedItems \<noteq> [] \<and> records = filter (\<lambda>item. item_id item \<in> set selectedItems) items
          \<and> spec_typeSheets localeDate itemTypes records \<noteq> []
          \<and> sheetNamesAccepted xlsx (map fst (spec_typeSheets localeDate itemTypes records))
          \<and> accepts_workbook xlsx
               (List.map_filter (typeSheet localeDate itemTypes) (spec_groups records)) \<longrightarrow>
           (\<exists>doc. exportToExcel xlsx localeDate today items itemTypes selectedItems = Inr (Some doc)
              \<and> map (\<lambda>s. (sheet_name s, sheet_data s)) (doc_sheets doc)
                  = spec_typeSheets localeDate itemTypes records))
       \<and> (records \<noteq> [] \<and> records = projectItems project allItems
          \<and> sheetNamesAccepted xlsx
               (''Project Info'' # map fst (spec_typeSheets localeDate itemTypes records))
          \<and> accepts_workbook xlsx
               (projectSheet localeDate project records
                # List.map_filter (typeSheet localeDate itemTypes) (spec_groups records)) \<longrightarrow>
           (\<exists>doc. exportProject xlsx localeDate today project allItems itemTypes = Inr (Some doc)
              \<and> map (\<lambda>s. (sheet_name s, sheet_data s)) (tl (doc_sheets doc))
                  = spec_typeSheets localeDate itemTypes records))"
proof -
  let ?new = "List.map_filter (typeSheet localeDate itemTypes) (spec_groups records)"
  let ?spec = "spec_typeSheets localeDate itemTypes records"
  have g: "groupedByType records = Inr (spec_groups records)"
    using assms by (simp add: groupedByType_ok)
  have e: "objectEntries (spec_groups records) = spec_groups records"
    using assms by (simp add: objectEntries_spec_groups)
  have s: "map (\<lambda>s. (sheet_name s, sheet_data s)) ?new = ?spec"
    by (rule typeSheets_spec)
  have n: "map sheet_name ?new = map fst ?spec"
    by (rule typeSheets_names)
  have l: "length ?new = length (map fst ?spec)"
    using n by (metis length_map)
  show ?thesis
  proof (intro conjI impI)
    assume a: "selectedItems \<noteq> [] \<and> records = filter (\<lambda>item. item_id item \<in> set selectedItems) items
          \<and> ?spec \<noteq> [] \<and> sheetNamesAccepted xlsx (map fst ?spec) \<and> accepts_workbook xlsx ?new"
    then have "sheetNamesAccepted xlsx (map fst ?spec)" by blast
    then have acc: "sheetNamesAccepted xlsx (map sheet_name ?new)" unfolding n .
    have "appendTypeSheets xlsx localeDate itemTypes [] (spec_groups records) = Inr ([] @ ?new)"
    proof (rule appendTypeSheets_ok)
      show "\<forall>s \<in> set ?new. sheet_name s \<noteq> [] \<and> check_ws_name xlsx (sheet_name s)"
        using acc by (simp add: sheetNamesAccepted_def)
      show "distinct (map sheet_name ([] @ ?new))"
        using acc by (simp add: sheetNamesAccepted_def)
      show "length ([] @ ?new) \<le> 65535"
        using acc by (simp add: sheetNamesAccepted_def)
    qed
    then have w: "appendTypeSheets xlsx localeDate itemTypes [] (spec_groups records) = Inr ?new"
      by simp
    from a have a1: "selectedItems \<noteq> []"
      and r: "filter (\<lambda>item. item_id item \<in> set selectedItems) items = records"
      and a3: "?spec \<noteq> []" and a5: "accepts_workbook xlsx ?new"
      by blast+
    have ne: "?new \<noteq> []" using a3 l by auto
    have "exportToExcel xlsx localeDate today items itemTypes selectedItems
            = Inr (Some \<lparr>doc_fileName = ''items_export_'' @ today @ ''.xlsx'', doc_sheets = ?new\<rparr>)"
      using a1 by (simp add: exportToExcel_def writeFile_def r g e w ne a5)
    then show "\<exists>doc. exportToExcel xlsx localeDate today items itemTypes selectedItems = Inr (Some doc)
              \<and> map (\<lambda>s. (sheet_name s, sheet_data s)) (doc_sheets doc) = ?spec"
      using s by simp
  next
    let ?p = "projectSheet localeDate project records"
    assume a: "records \<noteq> [] \<and> records = projectItems project allItems
          \<and> sheetNamesAccepted xlsx (''Project Info'' # map fst ?spec)
          \<and> accepts_workbook xlsx (?p # ?new)"
    then have "sheetNamesAccepted xlsx (''Project Info'' # map fst ?spec)" by blast
    then have acc: "sheetNamesAccepted xlsx (''Project Info'' # map sheet_name ?new)"
      unfolding n .
    have pn: "sheet_name ?p = ''Project Info''" by (simp add: projectSheet_def)
    have b: "book_append_sheet xlsx [] ?p = Inr ([] @ [?p])"
    proof (rule book_append_sheet_ok)
      show "sheet_name ?p \<noteq> []" by (simp add: pn)
      show "length ([] :: Sheet list) < 65535" by simp
      show "check_ws_name xlsx (sheet_name ?p)"
        using acc by (simp add: sheetNamesAccepted_def pn)
      show "sheet_name ?p \<notin> set (map sheet_name [])" by simp
    qed
    have "appendTypeSheets xlsx localeDate itemTypes [?p] (spec_groups records) = Inr ([?p] @ ?new)"
    proof (rule appendTypeSheets_ok)
      show "\<forall>s \<in> set ?new. sheet_name s \<noteq> [] \<and> check_ws_name xlsx (sheet_name s)"
        using acc by (simp add: sheetNamesAccepted_def)
      show "distinct (map sheet_name ([?p] @ ?new))"
        using acc by (simp add: sheetNamesAccepted_def pn)
      show "length ([?p] @ ?new) \<le> 65535"
        using acc by (simp add: sheetNamesAccepted_def)
    qed
    then have w: "appendTypeSheets xlsx localeDate itemTypes [?p] (spec_groups records) = Inr (?p # ?new)"
      by simp
    from a have a1: "records \<noteq> []"
      and r: "projectItems project allItems = records"
      and a5: "accepts_workbook xlsx (?p # ?new)"
      by blast+
    have "exportProject xlsx localeDate today project allItems itemTypes
            = Inr (Some \<lparr>doc_fileName = map (\<lambda>c. if isAlnum c then c else CHR ''_'') (project_name project)
                              @ ''_export_'' @ today @ ''.xlsx'',
                          doc_sheets = ?p # ?new\<rparr>)"
      using a1 b by (simp add: exportProject_def writeFile_def Let_def r g e w a5)
    then show "\<exists>doc. exportProject xlsx localeDate today project allItems itemTypes = Inr (Some doc)
              \<and> map (\<lambda>s. (sheet_name s, sheet_data s)) (tl (doc_sheets doc)) = ?spec"
      using s by simp
  qed
qed

theorem export_sheets_in_first_seen_order_witness:
  "(case exportToExcel sampleXlsx sampleLocaleDate ''2024-06-01'' [widgetItem, gadgetItem] [productsType]
           [''item_1'', ''item_3''] of
      Inr (Some doc) \<Rightarrow> map (\<lambda>s. (sheet_name s, sheet_data s)) (doc_sheets doc)
    | _ \<Rightarrow> [])
     = [(''Products'',
         [[VStr ''ID'', VStr ''Created At'', VStr ''Name'', VStr ''Price''],
          [VStr ''item_1'', VStr ''1/2/2024'', VStr ''Widget'', VStr []],
          [VStr ''item_3'', VStr ''1/4/2024'', VStr ''Gadget'', VStr ''12'']])]
   \<and> (case exportProject sampleXlsx sampleLocaleDate ''2024-06-01'' productsProject
           [widgetItem, gadgetItem] [productsType] of
      Inr (Some doc) \<Rightarrow> map (\<lambda>s. (sheet_name s, sheet_data s)) (tl (doc_sheets doc))
    | _ \<Rightarrow> [])
     = [(''Products'',
         [[VStr ''ID'', VStr ''Created At'', VStr ''Name'', VStr ''Price''],
          [VStr ''item_1'', VStr ''1/2/2024'', VStr ''Widget'', VStr []],
          [VStr ''item_3'', VStr ''1/4/2024'', VStr ''Gadget'', VStr ''12'']])]"
proof -
  let ?records = "[widgetItem, gadgetItem]"
  have h: "\<forall>r \<in> set ?records.
             item_typeName r \<notin> set objectPrototypeKeys \<and> \<not> isArrayIndex (item_typeName r)"
    by (simp add: widgetItem_def gadgetItem_def objectPrototypeKeys_def not_isArrayIndex_Products)
  have v: "spec_typeSheets sampleLocaleDate [productsType] ?records
     = [(''Products'',
         [[VStr ''ID'', VStr ''Created At'', VStr ''Name'', VStr ''Price''],
          [VStr ''item_1'', VStr ''1/2/2024'', VStr ''Widget'', VStr []],
          [VStr ''item_3'', VStr ''1/4/2024'', VStr ''Gadget'', VStr ''12'']])]"
    by (simp add: spec_typeSheets_def spec_groups_def widgetItem_def gadgetItem_def productsType_def
        nameField_def priceField_def List.map_filter_def dataRow_def getProp_def jsOr_def
        sampleLocaleDate_simps)
  have sel: "[''item_1'', ''item_3''] \<noteq> []" by simp
  have f: "?records = filter (\<lambda>item. item_id item \<in> set [''item_1'', ''item_3'']) ?records"
    by (simp add: widgetItem_def gadgetItem_def)
  have ne: "spec_typeSheets sampleLocaleDate [productsType] ?records \<noteq> []"
    by (simp add: v)
  have n1: "sheetNamesAccepted sampleXlsx
              (map fst (spec_typeSheets sampleLocaleDate [productsType] ?records))"
    by (simp add: v sheetNamesAccepted_def sampleXlsx_names)
  have n2: "sheetNamesAccepted sampleXlsx
              (''Project Info'' # map fst (spec_typeSheets sampleLocaleDate [productsType] ?records))"
    by (simp add: v sheetNamesAccepted_def sampleXlsx_names)
  have w1: "accepts_workbook sampleXlsx
              (List.map_filter (typeSheet sampleLocaleDate [productsType]) (spec_groups ?records))"
    by (rule sampleXlsx_accepts_short)
      (simp add: spec_groups_def widgetItem_def gadgetItem_def productsType_def nameField_def
        priceField_def List.map_filter_def typeSheet_def Let_def headersOf_def dataRow_def getProp_def
        jsOr_def sampleLocaleDate_simps)
  have w2: "accepts_workbook sampleXlsx
              (projectSheet sampleLocaleDate productsProject ?records
               # List.map_filter (typeSheet sampleLocaleDate [productsType]) (spec_groups ?records))"
    by (rule sampleXlsx_accepts_short)
      (simp add: spec_groups_def widgetItem_def gadgetItem_def productsType_def nameField_def
        priceField_def List.map_filter_def typeSheet_def Let_def headersOf_def dataRow_def getProp_def
        jsOr_def sampleLocaleDate_simps projectSheet_def projectInfo_def productsProject_def
        sampleLocaleDate_def stripZero_def intToString_def natToString.simps digitChar_def)
  have rne: "?records \<noteq> []" by simp
  have q: "?records = projectItems productsProject ?records"
    by (simp add: projectItems_def productsProject_def widgetItem_def gadgetItem_def)
  note th = export_sheets_in_first_seen_order [OF h, of "[''item_1'', ''item_3'']" ?records
      sampleLocaleDate "[productsType]" sampleXlsx "''2024-06-01''" productsProject ?records]
  from th sel f ne n1 w1
  have "\<exists>doc. exportToExcel sampleXlsx sampleLocaleDate ''2024-06-01'' ?records [productsType]
           [''item_1'', ''item_3''] = Inr (Some doc)
      \<and> map (\<lambda>s. (sheet_name s, sheet_data s)) (doc_sheets doc)
           = spec_typeSheets sampleLocaleDate [productsType] ?records"
    by blast
  then obtain doc where d: "exportToExcel sampleXlsx sampleLocaleDate ''2024-06-01'' ?records
           [productsType] [''item_1'', ''item_3''] = Inr (Some doc)"
    and m: "map (\<lambda>s. (sheet_name s, sheet_data s)) (doc_sheets doc)
           = spec_typeSheets sampleLocaleDate [productsType] ?records"
    by blast
  from th rne q n2 w2
  have "\<exists>doc. exportProject sampleXlsx sampleLocaleDate ''2024-06-01'' productsProject ?records
           [productsType] = Inr (Some doc)
      \<and> map (\<lambda>s. (sheet_name s, sheet_data s)) (tl (doc_sheets doc))
           = spec_typeSheets sampleLocaleDate [productsType] ?records"
    by blast
  then obtain doc' where d': "exportProject sampleXlsx sampleLocaleDate ''2024-06-01'' productsProject
           ?records [productsType] = Inr (Some doc')"
    and m': "map (\<lambda>s. (sheet_name s, sheet_data s)) (tl (doc_sheets doc'))
           = spec_typeSheets sampleLocaleDate [productsType] ?records"
    by blast
  show ?thesis by (simp add: d d' m m' v)
qed

text \<open>
  Claim C8 fails on the code at a selection all of whose groups lack a registered type:
  every group is passed over, as the claim says, and then \<^verbatim>\<open>XLSX.writeFile\<close> is
  called on the workbook without sheets and throws, whatever the library's name check.
\<close>

theorem export_of_unregistered_selection_throws:
  "item_typeName orphanItem \<notin> type_name ` set [productsType]
   \<and> exportToExcel xlsx localeDate today [orphanItem] [productsType] [''item_4''] = Inl WorkbookEmpty"
proof -
  have g: "groupedByType (filter (\<lambda>item. item_id item \<in> set [''item_4'']) [orphanItem])
             = Inr [(''Orphans'', [orphanItem])]"
    by (simp add: groupedByType_def groupStep_def orphanItem_def objectPrototypeKeys_def)
  have u: "\<forall>(typeName, typeItems) \<in> set [(''Orphans'', [orphanItem])].
             typeName \<notin> type_name ` set [productsType]"
    by (simp add: productsType_def)
  have "exportToExcel xlsx localeDate today [orphanItem] [productsType] [''item_4''] = Inl WorkbookEmpty"
    by (rule export_throws_when_no_group_registered [OF _ g u]) simp
  moreover have "item_typeName orphanItem \<notin> type_name ` set [productsType]"
    by (simp add: orphanItem_def productsType_def)
  ultimately show ?thesis by simp
qed

text \<open>
  Claim C10. In every data row of a sheet built by either export, the cell of a field
  whose stored value is falsy (missing, \<^verbatim>\<open>null\<close>, \<^verbatim>\<open>false\<close>, the number 0 or the
  empty string) is the empty string.
\<close>

theorem falsy_value_exported_as_empty:
  assumes "typeSheet localeDate itemTypes (typeName, typeItems) = Some sheet"
  shows "\<exists>itemType. find (\<lambda>ty. type_name ty = typeName) itemTypes = Some itemType
     \<and> (\<forall>r < length typeItems. \<forall>j < length (type_fields itemType).
          fieldValue (typeItems ! r) (type_fields itemType ! j)
            \<in> {Undefined, Null, VBool False, VNum 0, VStr []} \<longrightarrow>
          fieldCell sheet r j = VStr [])"
proof -
  from typeSheet_cells [OF assms] obtain itemType
    where f: "find (\<lambda>ty. type_name ty = typeName) itemTypes = Some itemType"
      and c: "\<forall>r < length typeItems. \<forall>j < length (type_fields itemType).
          fieldCell sheet r j
            = jsOr (fieldValue (typeItems ! r) (type_fields itemType ! j)) (VStr [])"
    by blast
  have "\<forall>r < length typeItems. \<forall>j < length (type_fields itemType).
          fieldValue (typeItems ! r) (type_fields itemType ! j)
            \<in> {Undefined, Null, VBool False, VNum 0, VStr []} \<longrightarrow>
          fieldCell sheet r j = VStr []"
    using c by (auto simp: jsOr_def)
  with f show ?thesis by blast
qed

theorem falsy_value_exported_as_empty_witness:
  "\<exists>sheet. typeSheet sampleLocaleDate [productsType] (''Products'', [widgetItem]) = Some sheet
     \<and> fieldValue widgetItem priceField = VNum 0
     \<and> fieldCell sheet 0 1 = VStr []"
proof -
  have "''Products'' \<in> type_name ` set [productsType]"
    by (simp add: productsType_def)
  then obtain sheet where s: "typeSheet sampleLocaleDate [productsType] (''Products'', [widgetItem]) = Some sheet"
    using typeSheet_registered by blast
  have f: "find (\<lambda>ty. type_name ty = ''Products'') [productsType] = Some productsType"
    by (simp add: productsType_def)
  have v: "fieldValue ([widgetItem] ! 0) (type_fields productsType ! 1) = VNum 0"
    by (simp add: fieldValue_def getProp_def widgetItem_def productsType_def priceField_def)
  have l: "0 < length [widgetItem]" "1 < length (type_fields productsType)"
    by (simp_all add: productsType_def)
  from falsy_value_exported_as_empty [OF s] f
  have "\<forall>r < length [widgetItem]. \<forall>j < length (type_fields productsType).
          fieldValue ([widgetItem] ! r) (type_fields productsType ! j)
            \<in> {Undefined, Null, VBool False, VNum 0, VStr []} \<longrightarrow>
          fieldCell sheet r j = VStr []"
    by simp
  with l v have "fieldCell sheet 0 1 = VStr []" by simp
  moreover have "fieldValue widgetItem priceField = VNum 0"
    using v by (simp add: productsType_def)
  ultimately show ?thesis using s by blast
qed

text \<open>
  Claim C6 as stated fails: the value \<^verbatim>\<open>2024-01-15\<close> of a date field is exported as
  that text, where the host renders the date as \<^verbatim>\<open>1/15/2024\<close>.
\<close>

theorem date_field_export_counterexample:
  "(case exportToExcel sampleXlsx sampleLocaleDate ''2024-06-01'' [taskItem] [tasksType] [''item_7''] of
      Inr (Some doc) \<Rightarrow> map sheet_data (doc_sheets doc)
    | _ \<Rightarrow> [])
     = [[[VStr ''ID'', VStr ''Created At'', VStr ''Due''],
         [VStr ''item_7'', VStr ''1/2/2024'', VStr ''2024-01-15'']]]
   \<and> field_type dueField = Date
   \<and> sampleLocaleDate (VStr ''2024-01-15'') = ''1/15/2024''"
  by (simp add: exportToExcel_def groupedByType_def groupStep_def objectPrototypeKeys_def
      taskItem_def tasksType_def dueField_def objectEntries_def isArrayIndex_def arrayIndex_def
      isDigit_def typeSheet_def Let_def headersOf_def dataRow_def getProp_def
      jsOr_def sampleLocaleDate_simps book_append_sheet_def writeFile_def sampleXlsx_def)

text \<open>
  Claim C6, as the code has it. In every data row of a sheet built by either export, the
  cell of a field of any kind, date included, holds the stored value itself when that
  value is truthy, with no date rendering and no conversion to text, and the empty
  string when the value is missing.
\<close>

theorem field_cell_is_stored_value:
  assumes "typeSheet localeDate itemTypes (typeName, typeItems) = Some sheet"
  shows "\<exists>itemType. find (\<lambda>ty. type_name ty = typeName) itemTypes = Some itemType
     \<and> (\<forall>r < length typeItems. \<forall>j < length (type_fields itemType).
          (truthy (fieldValue (typeItems ! r) (type_fields itemType ! j)) \<longrightarrow>
             fieldCell sheet r j = fieldValue (typeItems ! r) (type_fields itemType ! j))
          \<and> (fieldValue (typeItems ! r) (type_fields itemType ! j) = Undefined \<longrightarrow>
             fieldCell sheet r j = VStr []))"
proof -
  from typeSheet_cells [OF assms] obtain itemType
    where f: "find (\<lambda>ty. type_name ty = typeName) itemTypes = Some itemType"
      and c: "\<forall>r < length typeItems. \<forall>j < length (type_fields itemType).
          fieldCell sheet r j
            = jsOr (fieldValue (typeItems ! r) (type_fields itemType ! j)) (VStr [])"
    by blast
  have "\<forall>r < length typeItems. \<forall>j < length (type_fields itemType).
          (truthy (fieldValue (typeItems ! r) (type_fields itemType ! j)) \<longrightarrow>
             fieldCell sheet r j = fieldValue (typeItems ! r) (type_fields itemType ! j))
          \<and> (fieldValue (typeItems ! r) (type_fields itemType ! j) = Undefined \<longrightarrow>
             fieldCell sheet r j = VStr [])"
    using c by (simp add: jsOr_def)
  with f show ?thesis by blast
qed

theorem field_cell_is_stored_value_witness:
  "\<exists>sheet. typeSheet sampleLocaleDate [tasksType] (''Tasks'', [taskItem]) = Some sheet
     \<and> field_type dueField = Date
     \<and> fieldCell sheet 0 0 = VStr ''2024-01-15''"
proof -
  have "''Tasks'' \<in> type_name ` set [tasksType]"
    by (simp add: tasksType_def)
  then obtain sheet where s: "typeSheet sampleLocaleDate [tasksType] (''Tasks'', [taskItem]) = Some sheet"
    using typeSheet_registered by blast
  have f: "find (\<lambda>ty. type_name ty = ''Tasks'') [tasksType] = Some tasksType"
    by (simp add: tasksType_def)
  have v: "fieldValue ([taskItem] ! 0) (type_fields tasksType ! 0) = VStr ''2024-01-15''"
    by (simp add: fieldValue_def getProp_def taskItem_def tasksType_def dueField_def)
  have l: "0 < length [taskItem]" "0 < length (type_fields tasksType)"
    by (simp_all add: tasksType_def)
  from field_cell_is_stored_value [OF s] f
  have "\<forall>r < length [taskItem]. \<forall>j < length (type_fields tasksType).
          (truthy (fieldValue ([taskItem] ! r) (type_fields tasksType ! j)) \<longrightarrow>
             fieldCell sheet r j = fieldValue ([taskItem] ! r) (type_fields tasksType ! j))
          \<and> (fieldValue ([taskItem] ! r) (type_fields tasksType ! j) = Undefined \<longrightarrow>
             fieldCell sheet r j = VStr [])"
    by simp
  with l v have "fieldCell sheet 0 0 = VStr ''2024-01-15''" by simp
  moreover have "field_type dueField = Date" by (simp add: dueField_def)
  ultimately show ?thesis using s by blast
qed

text \<open>
  Claim C9. Export with no selected item, and export of a project none of whose ids
  resolves to an item, return without a document and without an error: no library call
  is reached.
\<close>

theorem export_empty_is_noop:
  "exportToExcel xlsx localeDate today items itemTypes [] = Inr None
   \<and> (projectItems project allItems = [] \<longrightarrow>
        exportProject xlsx localeDate today project allItems itemTypes = Inr None)"
  by (simp add: exportToExcel_def exportProject_def)

theorem export_empty_is_noop_witness:
  "exportProject sampleXlsx String ''2024-06-01'' sampleProject [sampleItem ''item_z''] [] = Inr None"
  using export_empty_is_noop [of sampleXlsx String "''2024-06-01''" "[]" "[]" sampleProject "[sampleItem ''item_z'']"]
  by (simp add: projectItems_def sampleProject_def sampleItem_def)

end
